theory Spec2Isabelle
  imports Main "HOL-Library.Word" "HOL-Library.List_Lexorder"
begin

section \<open>Go values\<close>

text \<open>
  A Go byte slice is either nil or a (possibly empty) sequence of bytes; the source
  tests \<^verbatim>\<open>x == nil\<close> and \<^verbatim>\<open>len(x) == 0\<close> separately, so both are kept apart:
  \<open>None\<close> is nil, \<open>Some []\<close> is the empty non-nil slice. A Go string is a byte
  sequence; strings compare bytewise, which is the lexicographic order on lists.
\<close>

type_synonym byte = "8 word"
type_synonym bytes = "byte list option"
type_synonym key = "byte list"
type_synonym u64 = "64 word"

datatype panic =
    PanicValue nat
  | IndexOutOfRange
  | DivideByZero
  | NilDereference
  | PanicTable string
  | PanicForgotten nat

datatype error =
    ErrPutNil nat
  | ErrDelPrefixNotSupported
  | ErrStorageRead bytes error
  | ErrExternal nat

datatype 'a outcome = Ok 'a | Err error | Panic panic

definition go_string :: "bytes \<Rightarrow> key" where
  "go_string b = (case b of None \<Rightarrow> [] | Some xs \<Rightarrow> xs)"

definition go_len :: "bytes \<Rightarrow> nat" where
  "go_len b = length (go_string b)"

definition bytes_Equal :: "bytes \<Rightarrow> bytes \<Rightarrow> bool" where
  "bytes_Equal a b = (go_string a = go_string b)"

text \<open>\<^verbatim>\<open>append(k1, k2...)\<close>: appending nothing returns \<open>k1\<close> itself (nil stays nil).\<close>

definition go_append :: "bytes \<Rightarrow> bytes \<Rightarrow> bytes" where
  "go_append k1 k2 = (if go_len k2 = 0 then k1 else Some (go_string k1 @ go_string k2))"

definition HasPrefix :: "key \<Rightarrow> key \<Rightarrow> bool" where
  "HasPrefix k p = (take (length p) k = p)"

text \<open>
  \<^verbatim>\<open>toStringZeroCopy(v) = unsafe.String(&v[0], len(v))\<close>: the index expression
  \<^verbatim>\<open>v[0]\<close> panics on a slice of length 0. \<^verbatim>\<open>toBytesZeroCopy\<close> is the way back.
\<close>

definition toStringZeroCopy :: "bytes \<Rightarrow> key outcome" where
  "toStringZeroCopy v = (if go_len v = 0 then Panic IndexOutOfRange else Ok (go_string v))"

definition toBytesZeroCopy :: "key \<Rightarrow> bytes" where
  "toBytesZeroCopy s = (if s = [] then None else Some s)"

section \<open>The ordered map of the storage domain\<close>

text \<open>
  \<^verbatim>\<open>btree2.Map[string, dataWithPrevStep]\<close> (a library type) is an ordered finite map.
  It is represented by an association list in which the first binding of a key is
  the live one; \<open>btree_Iter\<close> enumerates the live bindings in increasing key order.
\<close>

type_synonym 'v btree = "(key \<times> 'v) list"

definition btree_Get :: "'v btree \<Rightarrow> key \<Rightarrow> 'v option" where
  "btree_Get m k = map_of m k"

definition btree_Set :: "'v btree \<Rightarrow> key \<Rightarrow> 'v \<Rightarrow> 'v btree \<times> 'v option" where
  "btree_Set m k v = ((k, v) # m, map_of m k)"

definition btree_keys :: "'v btree \<Rightarrow> key list" where
  "btree_keys m = sort (remdups (map fst m))"

definition btree_Len :: "'v btree \<Rightarrow> nat" where
  "btree_Len m = length (btree_keys m)"

definition btree_Iter :: "'v btree \<Rightarrow> (key \<times> 'v) list" where
  "btree_Iter m = map (\<lambda>k. (k, the (map_of m k))) (btree_keys m)"

section \<open>Domains and the collaborators of the overlay\<close>

text \<open>
  Modelled from the spec: the type \<^verbatim>\<open>kv.Domain\<close> is declared outside the files at
  hand. The spec (section 3) calls it a closed enumeration of logical namespaces:
  Accounts, Storage, Code, Commitment, a read-cache domain, and others; the source
  names \<^verbatim>\<open>AccountsDomain\<close>, \<^verbatim>\<open>StorageDomain\<close>, \<^verbatim>\<open>CodeDomain\<close>, \<^verbatim>\<open>CommitmentDomain\<close> and
  \<^verbatim>\<open>RCacheDomain\<close>; \<open>ReceiptDomain\<close> stands for the others. \<open>all_domains\<close> is the
  index order of the arrays of length \<^verbatim>\<open>kv.DomainLen\<close>.
\<close>

datatype domain =
  AccountsDomain | StorageDomain | CodeDomain | CommitmentDomain | ReceiptDomain | RCacheDomain

definition all_domains :: "domain list" where
  "all_domains =
     [AccountsDomain, StorageDomain, CodeDomain, CommitmentDomain, ReceiptDomain, RCacheDomain]"

fun domain_index :: "domain \<Rightarrow> nat" where
  "domain_index AccountsDomain = 0"
| "domain_index StorageDomain = 1"
| "domain_index CodeDomain = 2"
| "domain_index CommitmentDomain = 3"
| "domain_index ReceiptDomain = 4"
| "domain_index RCacheDomain = 5"

type_synonym txref = nat
type_synonym wref = nat
type_synonym csref = nat
type_synonym diffset = "(domain \<times> key \<times> bytes \<times> u64) list"

text \<open>
  The overlay consumes its collaborators through interfaces only: the versioned
  store behind a transaction (state \<open>'s\<close>), the buffered writers together with the
  change sets they feed (state \<open>'w\<close>), and the commitment context (state \<open>'c\<close>).
  Their code is not part of the files at hand, so every operation is a parameter:
  a field of the record below. An operation that returns a Go \<^verbatim>\<open>error\<close> returns
  \<open>error option\<close> (or a sum) next to the state it leaves behind. All theorems hold
  for every choice of these operations.
\<close>

record ('s, 'w, 'c) ext =
  StepSize :: u64
  tx_GetLatest :: "'s \<Rightarrow> domain \<Rightarrow> bytes \<Rightarrow> error + (bytes \<times> u64)"
  tx_cursor :: "'s \<Rightarrow> domain \<Rightarrow> key \<Rightarrow> error + (key \<times> bytes \<times> u64) list"
  tx_Unwind :: "'s \<Rightarrow> u64 \<Rightarrow> diffset \<Rightarrow> error option \<times> 's"
  tx_PruneSmallBatches :: "'s \<Rightarrow> nat \<Rightarrow> error option \<times> 's"
  closeValsCursor :: "'s \<Rightarrow> domain \<Rightarrow> 's"
  WriteDiffSet :: "'s \<Rightarrow> 'w \<Rightarrow> u64 \<Rightarrow> key \<Rightarrow> csref \<Rightarrow> error option \<times> 's"
  PutWithPrev :: "'w \<Rightarrow> wref \<Rightarrow> bytes \<Rightarrow> bytes \<Rightarrow> bytes \<Rightarrow> u64 \<Rightarrow> bytes \<Rightarrow> u64 \<Rightarrow> error option \<times> 'w"
  DeleteWithPrev :: "'w \<Rightarrow> wref \<Rightarrow> bytes \<Rightarrow> bytes \<Rightarrow> u64 \<Rightarrow> bytes \<Rightarrow> u64 \<Rightarrow> error option \<times> 'w"
  writer_Flush :: "'w \<Rightarrow> wref \<Rightarrow> 's \<Rightarrow> error option \<times> 'w \<times> 's"
  writer_Close :: "'w \<Rightarrow> wref \<Rightarrow> 'w"
  ii_Flush :: "'w \<Rightarrow> wref \<Rightarrow> 's \<Rightarrow> error option \<times> 'w \<times> 's"
  ii_close :: "'w \<Rightarrow> wref \<Rightarrow> 'w"
  TouchKey :: "'c \<Rightarrow> domain \<Rightarrow> key \<Rightarrow> bytes \<Rightarrow> 'c"
  ctx_updates_Reset :: "'c \<Rightarrow> 'c"
  ctx_Reset :: "'c \<Rightarrow> 'c"
  ComputeRoot :: "'c \<Rightarrow> (domain \<Rightarrow> bytes \<Rightarrow> (bytes \<times> u64) outcome) \<Rightarrow> u64 \<Rightarrow> (error + key) \<times> 'c"
  PruneOnFlushTimeout :: nat
  assert_Enable :: bool
  Domain_String :: "domain \<Rightarrow> string"

section \<open>The overlay: \<^verbatim>\<open>SharedDomains\<close>\<close>

record dataWithPrevStep =
  data :: bytes
  prevStep :: u64

text \<open>
  The struct \<^verbatim>\<open>SharedDomains\<close>. Its pointer fields are kept as they are: \<open>roTtx\<close> is
  a reference into the heap of transactions (\<open>txref \<Rightarrow> 's\<close>, passed next to the
  overlay), so that the transaction handed to \<^verbatim>\<open>Flush\<close> or \<^verbatim>\<open>Unwind\<close> may or may not be
  the one the overlay reads from; \<open>domainWriters\<close> and \<open>iiWriters\<close> hold references
  (or nil) to writers whose buffers live in \<open>writers\<close>; \<open>sdCtx\<close> is the state of the
  commitment context.
\<close>

record ('w, 'c) SharedDomains =
  sdCtx :: 'c
  roTtx :: txref
  txNum :: u64
  blockNum :: u64
  estSize :: int
  domains :: "domain \<Rightarrow> key \<rightharpoonup> dataWithPrevStep"
  storage :: "dataWithPrevStep btree"
  domainWriters :: "domain \<Rightarrow> wref option"
  iiWriters :: "wref option list"
  writers :: 'w
  currentChangesAccumulator :: "csref option"
  pastChangesAccumulator :: "(key \<times> csref) list"

text \<open>Sequencing of two steps that return a Go \<^verbatim>\<open>error\<close>: the second runs only
  after the first returned nil.\<close>

definition and_then ::
  "unit outcome \<times> 'st \<Rightarrow> ('st \<Rightarrow> unit outcome \<times> 'st) \<Rightarrow> unit outcome \<times> 'st" where
  "and_then r f = (case r of (Ok u, st) \<Rightarrow> f st | (Err e, st) \<Rightarrow> (Err e, st)
                   | (Panic p, st) \<Rightarrow> (Panic p, st))"

definition put ::
  "('s, 'w, 'c) ext \<Rightarrow> ('w, 'c) SharedDomains \<Rightarrow> domain \<Rightarrow> key \<Rightarrow> bytes
    \<Rightarrow> unit outcome \<times> ('w, 'c) SharedDomains" where
  "put E sd domain k val =
     (if StepSize E = 0 then (Panic DivideByZero, sd)
      else
        let valWithPrevStep = \<lparr>data = val, prevStep = txNum sd div StepSize E\<rparr> in
        if domain = StorageDomain then
          (case btree_Set (storage sd) k valWithPrevStep of
             (m, Some old) \<Rightarrow>
               (Ok (), sd\<lparr>estSize := estSize sd + (int (go_len val) - int (go_len (data old))),
                          storage := m\<rparr>)
           | (m, None) \<Rightarrow>
               (Ok (), sd\<lparr>estSize := estSize sd + (int (length k) + int (go_len val)),
                          storage := m\<rparr>))
        else
          (case domains sd domain k of
             Some old \<Rightarrow>
               (Ok (), sd\<lparr>estSize := estSize sd + (int (go_len val) - int (go_len (data old))),
                          domains := (domains sd)(domain := (domains sd domain)(k \<mapsto> valWithPrevStep))\<rparr>)
           | None \<Rightarrow>
               (Ok (), sd\<lparr>estSize := estSize sd + (int (length k) + int (go_len val)),
                          domains := (domains sd)(domain := (domains sd domain)(k \<mapsto> valWithPrevStep))\<rparr>)))"

text \<open>\<^verbatim>\<open>get\<close> returns the cached value, its step and whether the key was found.\<close>

definition get ::
  "('w, 'c) SharedDomains \<Rightarrow> domain \<Rightarrow> bytes \<Rightarrow> (bytes \<times> u64 \<times> bool) outcome" where
  "get sd table k =
     (case toStringZeroCopy k of
        Panic p \<Rightarrow> Panic p
      | Err e \<Rightarrow> Err e
      | Ok keyS \<Rightarrow>
          if table = StorageDomain then
            (case btree_Get (storage sd) keyS of
               Some d \<Rightarrow> Ok (data d, prevStep d, True)
             | None \<Rightarrow> Ok (None, 0, False))
          else
            (case domains sd table keyS of
               Some d \<Rightarrow> Ok (data d, prevStep d, True)
             | None \<Rightarrow> Ok (None, 0, False)))"

definition SizeEstimate :: "('w, 'c) SharedDomains \<Rightarrow> u64" where
  "SizeEstimate sd = word_of_int (estSize sd) * 4"

text \<open>
  Modelled from the spec: the method \<^verbatim>\<open>LatestCommitment\<close> of \<^verbatim>\<open>SharedDomains\<close> is
  called by \<^verbatim>\<open>GetLatest\<close> and is not part of the files at hand. Spec 4.1, \<^verbatim>\<open>Get\<close>:
  overlay lookup first; on miss, delegate to the VersionedStore read at the current
  transaction number.
\<close>

definition LatestCommitment ::
  "('s, 'w, 'c) ext \<Rightarrow> (txref \<Rightarrow> 's) \<Rightarrow> ('w, 'c) SharedDomains \<Rightarrow> bytes
    \<Rightarrow> (bytes \<times> u64) outcome" where
  "LatestCommitment E h sd k =
     (case get sd CommitmentDomain k of
        Panic p \<Rightarrow> Panic p
      | Err e \<Rightarrow> Err e
      | Ok (v, step, ok) \<Rightarrow>
          if ok then Ok (v, step)
          else (case tx_GetLatest E (h (roTtx sd)) CommitmentDomain k of
                  Inl err \<Rightarrow> Err err
                | Inr (v, step) \<Rightarrow> Ok (v, step)))"

definition GetLatest ::
  "('s, 'w, 'c) ext \<Rightarrow> (txref \<Rightarrow> 's) \<Rightarrow> ('w, 'c) SharedDomains \<Rightarrow> domain \<Rightarrow> bytes
    \<Rightarrow> (bytes \<times> u64) outcome" where
  "GetLatest E h sd domain k =
     (if domain = CommitmentDomain then LatestCommitment E h sd k
      else
        (case get sd domain k of
           Panic p \<Rightarrow> Panic p
         | Err e \<Rightarrow> Err e
         | Ok (v, pstep, ok) \<Rightarrow>
             if ok then Ok (v, pstep)
             else (case tx_GetLatest E (h (roTtx sd)) domain k of
                     Inl err \<Rightarrow> Err (ErrStorageRead k err)
                   | Inr (v, step) \<Rightarrow> Ok (v, step))))"

text \<open>A call of a method of \<^verbatim>\<open>sd.domainWriters[domain]\<close>; a nil writer cannot be used.\<close>

definition writer_PutWithPrev ::
  "('s, 'w, 'c) ext \<Rightarrow> ('w, 'c) SharedDomains \<Rightarrow> domain \<Rightarrow> bytes \<Rightarrow> bytes \<Rightarrow> bytes \<Rightarrow> u64
     \<Rightarrow> bytes \<Rightarrow> u64 \<Rightarrow> unit outcome \<times> ('w, 'c) SharedDomains" where
  "writer_PutWithPrev E sd domain k1 k2 val txN prev step =
     (case domainWriters sd domain of
        None \<Rightarrow> (Panic NilDereference, sd)
      | Some w \<Rightarrow>
          (case PutWithPrev E (writers sd) w k1 k2 val txN prev step of
             (None, W) \<Rightarrow> (Ok (), sd\<lparr>writers := W\<rparr>)
           | (Some e, W) \<Rightarrow> (Err e, sd\<lparr>writers := W\<rparr>)))"

definition writer_DeleteWithPrev ::
  "('s, 'w, 'c) ext \<Rightarrow> ('w, 'c) SharedDomains \<Rightarrow> domain \<Rightarrow> bytes \<Rightarrow> bytes \<Rightarrow> u64
     \<Rightarrow> bytes \<Rightarrow> u64 \<Rightarrow> unit outcome \<times> ('w, 'c) SharedDomains" where
  "writer_DeleteWithPrev E sd domain k1 k2 txN prev step =
     (case domainWriters sd domain of
        None \<Rightarrow> (Panic NilDereference, sd)
      | Some w \<Rightarrow>
          (case DeleteWithPrev E (writers sd) w k1 k2 txN prev step of
             (None, W) \<Rightarrow> (Ok (), sd\<lparr>writers := W\<rparr>)
           | (Some e, W) \<Rightarrow> (Err e, sd\<lparr>writers := W\<rparr>)))"

definition touch ::
  "('s, 'w, 'c) ext \<Rightarrow> ('w, 'c) SharedDomains \<Rightarrow> domain \<Rightarrow> key \<Rightarrow> bytes \<Rightarrow> ('w, 'c) SharedDomains" where
  "touch E sd domain k val = sd\<lparr>sdCtx := TouchKey E (sdCtx sd) domain k val\<rparr>"

definition updateAccountData ::
  "('s, 'w, 'c) ext \<Rightarrow> ('w, 'c) SharedDomains \<Rightarrow> bytes \<Rightarrow> bytes \<Rightarrow> bytes \<Rightarrow> u64
     \<Rightarrow> unit outcome \<times> ('w, 'c) SharedDomains" where
  "updateAccountData E sd addr account prevAccount step =
     (let addrS = go_string addr in
      and_then (put E (touch E sd AccountsDomain addrS account) AccountsDomain addrS account)
        (\<lambda>sd. writer_PutWithPrev E sd AccountsDomain addr None account (txNum sd) prevAccount step))"

definition updateAccountCode ::
  "('s, 'w, 'c) ext \<Rightarrow> ('w, 'c) SharedDomains \<Rightarrow> bytes \<Rightarrow> bytes \<Rightarrow> bytes \<Rightarrow> u64
     \<Rightarrow> unit outcome \<times> ('w, 'c) SharedDomains" where
  "updateAccountCode E sd addr code prevCode step =
     (let addrS = go_string addr in
      and_then (put E (touch E sd CodeDomain addrS code) CodeDomain addrS code)
        (\<lambda>sd. if go_len code = 0
              then writer_DeleteWithPrev E sd CodeDomain addr None (txNum sd) prevCode step
              else writer_PutWithPrev E sd CodeDomain addr None code (txNum sd) prevCode step))"

definition updateCommitmentData ::
  "('s, 'w, 'c) ext \<Rightarrow> ('w, 'c) SharedDomains \<Rightarrow> key \<Rightarrow> bytes \<Rightarrow> bytes \<Rightarrow> u64
     \<Rightarrow> unit outcome \<times> ('w, 'c) SharedDomains" where
  "updateCommitmentData E sd pfx dat prev step =
     and_then (put E sd CommitmentDomain pfx dat)
       (\<lambda>sd. writer_PutWithPrev E sd CommitmentDomain (toBytesZeroCopy pfx) None dat (txNum sd) prev step)"

definition writeAccountStorage ::
  "('s, 'w, 'c) ext \<Rightarrow> ('w, 'c) SharedDomains \<Rightarrow> bytes \<Rightarrow> bytes \<Rightarrow> bytes \<Rightarrow> bytes \<Rightarrow> u64
     \<Rightarrow> unit outcome \<times> ('w, 'c) SharedDomains" where
  "writeAccountStorage E sd addr loc val preVal step =
     (let composite = (if loc \<noteq> None then Some (go_string addr @ go_string loc) else addr);
          compositeS = go_string composite in
      and_then (put E (touch E sd StorageDomain compositeS val) StorageDomain compositeS val)
        (\<lambda>sd. writer_PutWithPrev E sd StorageDomain composite None val (txNum sd) preVal step))"

definition delAccountStorage ::
  "('s, 'w, 'c) ext \<Rightarrow> ('w, 'c) SharedDomains \<Rightarrow> bytes \<Rightarrow> bytes \<Rightarrow> bytes \<Rightarrow> u64
     \<Rightarrow> unit outcome \<times> ('w, 'c) SharedDomains" where
  "delAccountStorage E sd addr loc preVal step =
     (let composite = (if loc \<noteq> None then Some (go_string addr @ go_string loc) else addr);
          compositeS = go_string composite in
      and_then (put E (touch E sd StorageDomain compositeS None) StorageDomain compositeS None)
        (\<lambda>sd. writer_DeleteWithPrev E sd StorageDomain composite None (txNum sd) preVal step))"

text \<open>
  \<^verbatim>\<open>DomainPut\<close>. The error of the nil check is
  \<^verbatim>\<open>fmt.Errorf("DomainPut: %s, trying to put nil value. not allowed", domain)\<close>; it
  is identified by the domain's index.
\<close>

definition DomainPut ::
  "('s, 'w, 'c) ext \<Rightarrow> (txref \<Rightarrow> 's) \<Rightarrow> ('w, 'c) SharedDomains \<Rightarrow> domain \<Rightarrow> bytes \<Rightarrow> bytes
     \<Rightarrow> bytes \<Rightarrow> bytes \<Rightarrow> u64 \<Rightarrow> unit outcome \<times> ('w, 'c) SharedDomains" where
  "DomainPut E h sd domain k1 k2 val prevVal step =
     (if k2 \<noteq> None then (Panic (PanicValue 1), sd)
      else if val = None then (Err (ErrPutNil (domain_index domain)), sd)
      else
        (case (if prevVal = None then GetLatest E h sd domain k1 else Ok (prevVal, step)) of
           Panic p \<Rightarrow> (Panic p, sd)
         | Err e \<Rightarrow> (Err e, sd)
         | Ok (prevVal, step) \<Rightarrow>
             (case domain of
                AccountsDomain \<Rightarrow> updateAccountData E sd k1 val prevVal step
              | StorageDomain \<Rightarrow> writeAccountStorage E sd k1 k2 val prevVal step
              | CodeDomain \<Rightarrow>
                  if bytes_Equal prevVal val then (Ok (), sd)
                  else updateAccountCode E sd k1 val prevVal step
              | CommitmentDomain \<Rightarrow>
                  (case toStringZeroCopy (go_append k1 k2) of
                     Panic p \<Rightarrow> (Panic p, sd)
                   | Err e \<Rightarrow> (Err e, sd)
                   | Ok keyS \<Rightarrow>
                       and_then (put E sd domain keyS val)
                         (\<lambda>sd. writer_PutWithPrev E sd domain k1 k2 val (txNum sd) prevVal step))
              | RCacheDomain \<Rightarrow>
                  (case toStringZeroCopy (go_append k1 k2) of
                     Panic p \<Rightarrow> (Panic p, sd)
                   | Err e \<Rightarrow> (Err e, sd)
                   | Ok keyS \<Rightarrow>
                       and_then (put E sd domain keyS val)
                         (\<lambda>sd. writer_PutWithPrev E sd domain k1 k2 val (txNum sd) prevVal step))
              | ReceiptDomain \<Rightarrow>
                  if bytes_Equal prevVal val then (Ok (), sd)
                  else
                    (case toStringZeroCopy (go_append k1 k2) of
                       Panic p \<Rightarrow> (Panic p, sd)
                     | Err e \<Rightarrow> (Err e, sd)
                     | Ok keyS \<Rightarrow>
                         and_then (put E sd domain keyS val)
                           (\<lambda>sd. writer_PutWithPrev E sd domain k1 k2 val (txNum sd) prevVal step)))))"

section \<open>Prefix iteration\<close>

text \<open>
  Modelled from the spec: the method \<^verbatim>\<open>debugIteratePrefix\<close> of the domain's read
  transaction is not part of the files at hand. Spec 4.1, \<^verbatim>\<open>IteratePrefix\<close>: it merges
  the sorted in-memory Storage overlay with the underlying store's sorted cursor,
  yielding (key, value, version) pairs in key order; the visitor returns whether to
  continue. Spec 3: keys and values are raw byte strings, nil/absent represents
  deletion; at most one live entry per key, the overlay entry being the most recent
  write. So an overlay entry shadows the store's entry of the same key, and an entry
  whose value is nil is a deletion and is not yielded. The store's cursor
  (\<open>tx_cursor\<close>) is a parameter.
\<close>

definition merged_entries ::
  "key \<Rightarrow> bool \<Rightarrow> (key \<times> dataWithPrevStep) list \<Rightarrow> (key \<times> bytes \<times> u64) list
     \<Rightarrow> (key \<times> bytes \<times> u64) list" where
  "merged_entries pfx haveRamUpdates ramIter db =
     (let ram = (if haveRamUpdates then filter (\<lambda>e. HasPrefix (fst e) pfx) ramIter else []);
          dbp = filter (\<lambda>e. HasPrefix (fst e) pfx) db;
          ks = sort (remdups (map fst ram @ map fst dbp))
      in filter (\<lambda>e. fst (snd e) \<noteq> None)
           (concat (map (\<lambda>k. case map_of ram k of
                                 Some d \<Rightarrow> [(k, data d, prevStep d)]
                               | None \<Rightarrow> (case map_of dbp k of
                                             Some vs \<Rightarrow> [(k, fst vs, snd vs)]
                                           | None \<Rightarrow> [])) ks)))"

fun visit ::
  "('a \<Rightarrow> bytes \<Rightarrow> bytes \<Rightarrow> u64 \<Rightarrow> (bool \<times> error option) \<times> 'a) \<Rightarrow> (key \<times> bytes \<times> u64) list
     \<Rightarrow> 'a \<Rightarrow> unit outcome \<times> 'a" where
  "visit it [] a = (Ok (), a)"
| "visit it (e # es) a =
     (case it a (Some (fst e)) (fst (snd e)) (snd (snd e)) of
        ((cont, Some err), a') \<Rightarrow> (Err err, a')
      | ((cont, None), a') \<Rightarrow> if cont then visit it es a' else (Ok (), a'))"

definition debugIteratePrefix ::
  "('s, 'w, 'c) ext \<Rightarrow> 's \<Rightarrow> domain \<Rightarrow> bytes \<Rightarrow> bool \<Rightarrow> (key \<times> dataWithPrevStep) list
     \<Rightarrow> ('a \<Rightarrow> bytes \<Rightarrow> bytes \<Rightarrow> u64 \<Rightarrow> (bool \<times> error option) \<times> 'a) \<Rightarrow> 'a
     \<Rightarrow> unit outcome \<times> 'a" where
  "debugIteratePrefix E tx domain pfx haveRamUpdates ramIter it a =
     (case tx_cursor E tx domain (go_string pfx) of
        Inl err \<Rightarrow> (Err err, a)
      | Inr db \<Rightarrow> visit it (merged_entries (go_string pfx) haveRamUpdates ramIter db) a)"

definition IteratePrefix ::
  "('s, 'w, 'c) ext \<Rightarrow> (txref \<Rightarrow> 's) \<Rightarrow> ('w, 'c) SharedDomains \<Rightarrow> domain \<Rightarrow> bytes
     \<Rightarrow> ('a \<Rightarrow> bytes \<Rightarrow> bytes \<Rightarrow> u64 \<Rightarrow> (bool \<times> error option) \<times> 'a) \<Rightarrow> 'a
     \<Rightarrow> unit outcome \<times> 'a" where
  "IteratePrefix E h sd domain pfx it a =
     (let haveRamUpdates = (domain = StorageDomain \<and> btree_Len (storage sd) > 0);
          ramIter = (if domain = StorageDomain then btree_Iter (storage sd) else [])
      in debugIteratePrefix E (h (roTtx sd)) domain pfx haveRamUpdates ramIter it a)"

definition IterateStoragePrefix ::
  "('s, 'w, 'c) ext \<Rightarrow> (txref \<Rightarrow> 's) \<Rightarrow> ('w, 'c) SharedDomains \<Rightarrow> bytes
     \<Rightarrow> ('a \<Rightarrow> bytes \<Rightarrow> bytes \<Rightarrow> u64 \<Rightarrow> (bool \<times> error option) \<times> 'a) \<Rightarrow> 'a
     \<Rightarrow> unit outcome \<times> 'a" where
  "IterateStoragePrefix E h sd pfx it a = IteratePrefix E h sd StorageDomain pfx it a"

text \<open>The visitor of \<^verbatim>\<open>HasPrefix\<close>: keep the first key and stop.\<close>

definition SharedDomains_HasPrefix ::
  "('s, 'w, 'c) ext \<Rightarrow> (txref \<Rightarrow> 's) \<Rightarrow> ('w, 'c) SharedDomains \<Rightarrow> domain \<Rightarrow> bytes
     \<Rightarrow> unit outcome \<times> (bytes \<times> bool)" where
  "SharedDomains_HasPrefix E h sd domain pfx =
     IteratePrefix E h sd domain pfx (\<lambda>a k v step. ((False, None), (k, True))) (None, False)"

text \<open>The two visitors of \<^verbatim>\<open>DomainDelPrefix\<close>: collect the tombs; count what is left.\<close>

definition collect_tomb ::
  "(bytes \<times> bytes \<times> u64) list \<Rightarrow> bytes \<Rightarrow> bytes \<Rightarrow> u64
     \<Rightarrow> (bool \<times> error option) \<times> (bytes \<times> bytes \<times> u64) list" where
  "collect_tomb tombs k v step = ((True, None), tombs @ [(k, v, step)])"

definition count_forgotten :: "nat \<Rightarrow> bytes \<Rightarrow> bytes \<Rightarrow> u64 \<Rightarrow> (bool \<times> error option) \<times> nat" where
  "count_forgotten forgotten k v step = ((True, None), forgotten + 1)"

section \<open>Deletion\<close>

text \<open>
  \<^verbatim>\<open>DomainDel\<close>, \<^verbatim>\<open>deleteAccount\<close> and \<^verbatim>\<open>DomainDelPrefix\<close> call each other: deleting an
  account deletes its storage by prefix and its code, each through \<^verbatim>\<open>DomainDel\<close>
  again. \<open>delTombs\<close> is the loop of \<^verbatim>\<open>DomainDelPrefix\<close> over the collected tombs.
\<close>

function DomainDel ::
  "('s, 'w, 'c) ext \<Rightarrow> (txref \<Rightarrow> 's) \<Rightarrow> ('w, 'c) SharedDomains \<Rightarrow> domain \<Rightarrow> bytes \<Rightarrow> bytes \<Rightarrow> u64
     \<Rightarrow> unit outcome \<times> ('w, 'c) SharedDomains"
  and deleteAccount ::
  "('s, 'w, 'c) ext \<Rightarrow> (txref \<Rightarrow> 's) \<Rightarrow> ('w, 'c) SharedDomains \<Rightarrow> bytes \<Rightarrow> bytes \<Rightarrow> u64
     \<Rightarrow> unit outcome \<times> ('w, 'c) SharedDomains"
  and DomainDelPrefix ::
  "('s, 'w, 'c) ext \<Rightarrow> (txref \<Rightarrow> 's) \<Rightarrow> ('w, 'c) SharedDomains \<Rightarrow> domain \<Rightarrow> bytes
     \<Rightarrow> unit outcome \<times> ('w, 'c) SharedDomains"
  and delTombs ::
  "('s, 'w, 'c) ext \<Rightarrow> (txref \<Rightarrow> 's) \<Rightarrow> ('w, 'c) SharedDomains \<Rightarrow> (bytes \<times> bytes \<times> u64) list
     \<Rightarrow> unit outcome \<times> ('w, 'c) SharedDomains"
where
  "DomainDel E h sd domain k prevVal step =
     (case (if prevVal = None then GetLatest E h sd domain k else Ok (prevVal, step)) of
        Panic p \<Rightarrow> (Panic p, sd)
      | Err e \<Rightarrow> (Err e, sd)
      | Ok (prevVal, step) \<Rightarrow>
          (case domain of
             AccountsDomain \<Rightarrow> deleteAccount E h sd k prevVal step
           | StorageDomain \<Rightarrow> delAccountStorage E sd k None prevVal step
           | CodeDomain \<Rightarrow>
               if prevVal = None then (Ok (), sd)
               else updateAccountCode E sd k None prevVal step
           | CommitmentDomain \<Rightarrow>
               (case toStringZeroCopy k of
                  Panic p \<Rightarrow> (Panic p, sd)
                | Err e \<Rightarrow> (Err e, sd)
                | Ok keyS \<Rightarrow> updateCommitmentData E sd keyS None prevVal step)
           | ReceiptDomain \<Rightarrow>
               (case toStringZeroCopy k of
                  Panic p \<Rightarrow> (Panic p, sd)
                | Err e \<Rightarrow> (Err e, sd)
                | Ok keyS \<Rightarrow>
                    and_then (put E sd domain keyS None)
                      (\<lambda>sd. writer_DeleteWithPrev E sd domain k None (txNum sd) prevVal step))
           | RCacheDomain \<Rightarrow>
               (case toStringZeroCopy k of
                  Panic p \<Rightarrow> (Panic p, sd)
                | Err e \<Rightarrow> (Err e, sd)
                | Ok keyS \<Rightarrow>
                    and_then (put E sd domain keyS None)
                      (\<lambda>sd. writer_DeleteWithPrev E sd domain k None (txNum sd) prevVal step))))"
| "deleteAccount E h sd addr prev step =
     and_then (DomainDelPrefix E h sd StorageDomain addr)
       (\<lambda>sd. and_then (DomainDel E h sd CodeDomain addr None step)
          (\<lambda>sd. and_then (put E (touch E sd AccountsDomain (go_string addr) None)
                             AccountsDomain (go_string addr) None)
             (\<lambda>sd. writer_DeleteWithPrev E sd AccountsDomain addr None (txNum sd) prev step)))"
| "DomainDelPrefix E h sd domain pfx =
     (if domain \<noteq> StorageDomain then (Err ErrDelPrefixNotSupported, sd)
      else
        (case IterateStoragePrefix E h sd pfx collect_tomb [] of
           (Panic p, tombs) \<Rightarrow> (Panic p, sd)
         | (Err e, tombs) \<Rightarrow> (Err e, sd)
         | (Ok u, tombs) \<Rightarrow>
             and_then (delTombs E h sd tombs)
               (\<lambda>sd. if assert_Enable E then
                        (case IterateStoragePrefix E h sd pfx count_forgotten 0 of
                           (Panic p, forgotten) \<Rightarrow> (Panic p, sd)
                         | (Err e, forgotten) \<Rightarrow> (Err e, sd)
                         | (Ok u, forgotten) \<Rightarrow>
                             if forgotten > 0 then (Panic (PanicForgotten forgotten), sd)
                             else (Ok (), sd))
                      else (Ok (), sd))))"
| "delTombs E h sd [] = (Ok (), sd)"
| "delTombs E h sd (tomb # tombs) =
     and_then (DomainDel E h sd StorageDomain (fst tomb) (fst (snd tomb)) (snd (snd tomb)))
       (\<lambda>sd. delTombs E h sd tombs)"
  by pat_completeness auto
termination
  by (relation "inv_image (less_than <*lex*> less_than)
        (\<lambda>x. case x of
           Inl (Inl (E, h, sd, domain, k, prevVal, step)) \<Rightarrow>
             (if domain = AccountsDomain then 4 else 0, 0)
         | Inl (Inr (E, h, sd, addr, prev, step)) \<Rightarrow> (3, 0)
         | Inr (Inl (E, h, sd, domain, pfx)) \<Rightarrow> (2, 0)
         | Inr (Inr (E, h, sd, tombs)) \<Rightarrow> (1, length tombs))") auto

declare DomainDel.simps [simp del] deleteAccount.simps [simp del] DomainDelPrefix.simps [simp del]

section \<open>Timeline position, \<^verbatim>\<open>ClearRam\<close>, \<^verbatim>\<open>Flush\<close> and \<^verbatim>\<open>Unwind\<close>\<close>

definition SetTxNum :: "('w, 'c) SharedDomains \<Rightarrow> u64 \<Rightarrow> ('w, 'c) SharedDomains" where
  "SetTxNum sd n = sd\<lparr>txNum := n\<rparr>"

definition SetBlockNum :: "('w, 'c) SharedDomains \<Rightarrow> u64 \<Rightarrow> ('w, 'c) SharedDomains" where
  "SetBlockNum sd n = sd\<lparr>blockNum := n\<rparr>"

definition ClearRam ::
  "('s, 'w, 'c) ext \<Rightarrow> ('w, 'c) SharedDomains \<Rightarrow> bool \<Rightarrow> ('w, 'c) SharedDomains" where
  "ClearRam E sd resetCommitment =
     (let sd1 = sd\<lparr>domains := (\<lambda>i. Map.empty)\<rparr>;
          sd2 = (if resetCommitment
                 then sd1\<lparr>sdCtx := ctx_Reset E (ctx_updates_Reset E (sdCtx sd1))\<rparr>
                 else sd1)
      in sd2\<lparr>storage := [], estSize := 0\<rparr>)"

text \<open>
  Modelled from the spec: the method \<^verbatim>\<open>ComputeCommitment\<close> of \<^verbatim>\<open>SharedDomains\<close> is
  not part of the files at hand. Spec 4.3 (2): compute the commitment for the current
  state, forcing the CommitmentContext to resolve all pending touches into a root
  hash. Spec 6, commitment contract: \<^verbatim>\<open>ComputeRoot() -> (hash, err)\<close>. Spec 3: the
  context holds the references needed to read current and previous values. So the
  context's \<open>ComputeRoot\<close> (a parameter) gets a reader of the overlay, and only the
  context changes.
\<close>

definition ComputeCommitment ::
  "('s, 'w, 'c) ext \<Rightarrow> (txref \<Rightarrow> 's) \<Rightarrow> ('w, 'c) SharedDomains \<Rightarrow> bool \<Rightarrow> u64
     \<Rightarrow> key outcome \<times> ('w, 'c) SharedDomains" where
  "ComputeCommitment E h sd saveStateAfter blockN =
     (case ComputeRoot E (sdCtx sd) (GetLatest E h sd) blockN of
        (Inl err, c) \<Rightarrow> (Err err, sd\<lparr>sdCtx := c\<rparr>)
      | (Inr root, c) \<Rightarrow> (Ok root, sd\<lparr>sdCtx := c\<rparr>))"

text \<open>\<^verbatim>\<open>binary.BigEndian.Uint64\<close> reads the first 8 bytes and panics on a shorter slice.\<close>

definition BigEndian_Uint64 :: "byte list \<Rightarrow> u64 outcome" where
  "BigEndian_Uint64 b =
     (if length b < 8 then Panic IndexOutOfRange
      else Ok (foldl (\<lambda>acc x. acc * 256 + ucast x) 0 (take 8 b)))"

text \<open>
  The loops of \<^verbatim>\<open>Flush\<close>; their state is the overlay and the heap of transactions.
  The keys of \<open>pastChangesAccumulator\<close> are cut at byte 8 (\<^verbatim>\<open>key[:8]\<close> panics on a
  shorter key); the conversion \<^verbatim>\<open>common.BytesToHash\<close> of the rest is left to the
  parameter \<open>WriteDiffSet\<close>. A Go map is ranged over in an unspecified order: the
  list \<open>pastChangesAccumulator\<close> is ranged over in its own order, which is arbitrary.
\<close>

fun writeDiffSets ::
  "('s, 'w, 'c) ext \<Rightarrow> txref \<Rightarrow> (key \<times> csref) list \<Rightarrow> ('w, 'c) SharedDomains \<times> (txref \<Rightarrow> 's)
     \<Rightarrow> unit outcome \<times> ('w, 'c) SharedDomains \<times> (txref \<Rightarrow> 's)" where
  "writeDiffSets E tx [] st = (Ok (), st)"
| "writeDiffSets E tx (kc # rest) st =
     (case BigEndian_Uint64 (take 8 (fst kc)) of
        Panic p \<Rightarrow> (Panic p, st)
      | Err e \<Rightarrow> (Err e, st)
      | Ok blockN \<Rightarrow>
          (case WriteDiffSet E (snd st tx) (writers (fst st)) blockN (drop 8 (fst kc)) (snd kc) of
             (Some err, s) \<Rightarrow> (Err err, (fst st, (snd st)(tx := s)))
           | (None, s) \<Rightarrow> writeDiffSets E tx rest (fst st, (snd st)(tx := s))))"

fun flushDomainWriters ::
  "('s, 'w, 'c) ext \<Rightarrow> txref \<Rightarrow> domain list \<Rightarrow> ('w, 'c) SharedDomains \<times> (txref \<Rightarrow> 's)
     \<Rightarrow> unit outcome \<times> ('w, 'c) SharedDomains \<times> (txref \<Rightarrow> 's)" where
  "flushDomainWriters E tx [] st = (Ok (), st)"
| "flushDomainWriters E tx (di # rest) st =
     (case domainWriters (fst st) di of
        None \<Rightarrow> flushDomainWriters E tx rest st
      | Some w \<Rightarrow>
          (case writer_Flush E (writers (fst st)) w (snd st tx) of
             (Some err, W, s) \<Rightarrow> (Err err, ((fst st)\<lparr>writers := W\<rparr>, (snd st)(tx := s)))
           | (None, W, s) \<Rightarrow>
               (let h1 = (snd st)(tx := s);
                    h2 = h1(roTtx (fst st) := closeValsCursor E (h1 (roTtx (fst st))) di)
                in flushDomainWriters E tx rest ((fst st)\<lparr>writers := W\<rparr>, h2))))"

fun flushIIWriters ::
  "('s, 'w, 'c) ext \<Rightarrow> txref \<Rightarrow> wref option list \<Rightarrow> ('w, 'c) SharedDomains \<times> (txref \<Rightarrow> 's)
     \<Rightarrow> unit outcome \<times> ('w, 'c) SharedDomains \<times> (txref \<Rightarrow> 's)" where
  "flushIIWriters E tx [] st = (Ok (), st)"
| "flushIIWriters E tx (None # rest) st = flushIIWriters E tx rest st"
| "flushIIWriters E tx (Some w # rest) st =
     (case ii_Flush E (writers (fst st)) w (snd st tx) of
        (Some err, W, s) \<Rightarrow> (Err err, ((fst st)\<lparr>writers := W\<rparr>, (snd st)(tx := s)))
      | (None, W, s) \<Rightarrow> flushIIWriters E tx rest ((fst st)\<lparr>writers := W\<rparr>, (snd st)(tx := s)))"

definition pruneOnFlush ::
  "('s, 'w, 'c) ext \<Rightarrow> txref \<Rightarrow> ('w, 'c) SharedDomains \<times> (txref \<Rightarrow> 's)
     \<Rightarrow> unit outcome \<times> ('w, 'c) SharedDomains \<times> (txref \<Rightarrow> 's)" where
  "pruneOnFlush E tx st =
     (if PruneOnFlushTimeout E \<noteq> 0 then
        (case tx_PruneSmallBatches E (snd st tx) (PruneOnFlushTimeout E) of
           (Some err, s) \<Rightarrow> (Err err, (fst st, (snd st)(tx := s)))
         | (None, s) \<Rightarrow> (Ok (), (fst st, (snd st)(tx := s))))
      else (Ok (), st))"

fun closeDomainWriters ::
  "('s, 'w, 'c) ext \<Rightarrow> domain list \<Rightarrow> ('w, 'c) SharedDomains \<Rightarrow> ('w, 'c) SharedDomains" where
  "closeDomainWriters E [] sd = sd"
| "closeDomainWriters E (di # rest) sd =
     (case domainWriters sd di of
        None \<Rightarrow> closeDomainWriters E rest sd
      | Some w \<Rightarrow> closeDomainWriters E rest (sd\<lparr>writers := writer_Close E (writers sd) w\<rparr>))"

fun closeIIWriters ::
  "('s, 'w, 'c) ext \<Rightarrow> wref option list \<Rightarrow> ('w, 'c) SharedDomains \<Rightarrow> ('w, 'c) SharedDomains" where
  "closeIIWriters E [] sd = sd"
| "closeIIWriters E (None # rest) sd = closeIIWriters E rest sd"
| "closeIIWriters E (Some w # rest) sd =
     closeIIWriters E rest (sd\<lparr>writers := ii_close E (writers sd) w\<rparr>)"

definition Flush ::
  "('s, 'w, 'c) ext \<Rightarrow> (txref \<Rightarrow> 's) \<Rightarrow> ('w, 'c) SharedDomains \<Rightarrow> txref
     \<Rightarrow> unit outcome \<times> ('w, 'c) SharedDomains \<times> (txref \<Rightarrow> 's)" where
  "Flush E h sd tx =
     and_then (writeDiffSets E tx (pastChangesAccumulator sd) (sd, h))
       (\<lambda>st. case ComputeCommitment E (snd st) ((fst st)\<lparr>pastChangesAccumulator := []\<rparr>) True
                     (blockNum (fst st)) of
               (Panic p, sd2) \<Rightarrow> (Panic p, (sd2, snd st))
             | (Err err, sd2) \<Rightarrow> (Err err, (sd2, snd st))
             | (Ok root, sd2) \<Rightarrow>
                 and_then (flushDomainWriters E tx all_domains (sd2, snd st))
                   (\<lambda>st. and_then (flushIIWriters E tx (iiWriters (fst st)) st)
                      (\<lambda>st. and_then (pruneOnFlush E tx st)
                         (\<lambda>st. (Ok (), (closeIIWriters E (iiWriters (fst st))
                                           (closeDomainWriters E all_domains (fst st)),
                                         snd st))))))"

definition Unwind ::
  "('s, 'w, 'c) ext \<Rightarrow> (txref \<Rightarrow> 's) \<Rightarrow> ('w, 'c) SharedDomains \<Rightarrow> txref \<Rightarrow> u64 \<Rightarrow> u64 \<Rightarrow> diffset
     \<Rightarrow> unit outcome \<times> ('w, 'c) SharedDomains \<times> (txref \<Rightarrow> 's)" where
  "Unwind E h sd rwTx blockUnwindTo txUnwindTo changeset =
     (if StepSize E = 0 then (Panic DivideByZero, (sd, h))
      else
        and_then (Flush E h sd rwTx)
          (\<lambda>st. case tx_Unwind E (snd st rwTx) txUnwindTo changeset of
                  (Some err, s) \<Rightarrow> (Err err, (fst st, (snd st)(rwTx := s)))
                | (None, s) \<Rightarrow>
                    Flush E ((snd st)(rwTx := s))
                      (SetBlockNum (SetTxNum (ClearRam E (fst st) True) txUnwindTo) blockUnwindTo)
                      rwTx))"

section \<open>\<^verbatim>\<open>ReadsValid\<close>\<close>

record KvList =
  Keys :: "key list"
  Vals :: "bytes list"

definition KvList_Push :: "KvList \<Rightarrow> key \<Rightarrow> bytes \<Rightarrow> KvList" where
  "KvList_Push l k v = l\<lparr>Keys := Keys l @ [k], Vals := Vals l @ [v]\<rparr>"

definition CodeSizeTableFake :: string where
  "CodeSizeTableFake = ''CodeSize''"

text \<open>
  The four loops of \<^verbatim>\<open>ReadsValid\<close> differ in the map they read and in the comparison;
  \<open>validKeys\<close> is the loop, with index \<open>i\<close> into \<^verbatim>\<open>list.Vals\<close> (read only when the key is
  in the overlay, and panicking out of range). It returns \<open>Ok False\<close> where the source
  returns false.
\<close>

fun validKeys ::
  "(key \<rightharpoonup> dataWithPrevStep) \<Rightarrow> (bytes \<Rightarrow> bytes \<Rightarrow> bool outcome) \<Rightarrow> bytes list \<Rightarrow> nat \<Rightarrow> key list
     \<Rightarrow> bool outcome" where
  "validKeys m differs vals i [] = Ok True"
| "validKeys m differs vals i (k # ks) =
     (case m k of
        None \<Rightarrow> validKeys m differs vals (Suc i) ks
      | Some val \<Rightarrow>
          if length vals \<le> i then Panic IndexOutOfRange
          else (case differs (vals ! i) (data val) of
                  Panic p \<Rightarrow> Panic p
                | Err e \<Rightarrow> Err e
                | Ok d \<Rightarrow> if d then Ok False else validKeys m differs vals (Suc i) ks))"

definition differs_bytes :: "bytes \<Rightarrow> bytes \<Rightarrow> bool outcome" where
  "differs_bytes expected current = Ok (\<not> bytes_Equal expected current)"

definition differs_size :: "bytes \<Rightarrow> bytes \<Rightarrow> bool outcome" where
  "differs_size expected current =
     (case BigEndian_Uint64 (go_string expected) of
        Panic p \<Rightarrow> Panic p
      | Err e \<Rightarrow> Err e
      | Ok n \<Rightarrow> Ok (n \<noteq> of_nat (go_len current)))"

definition validTable ::
  "('s, 'w, 'c) ext \<Rightarrow> ('w, 'c) SharedDomains \<Rightarrow> string \<Rightarrow> KvList option \<Rightarrow> bool outcome" where
  "validTable E sd table list =
     (if table = Domain_String E AccountsDomain then
        (case list of None \<Rightarrow> Panic NilDereference
         | Some l \<Rightarrow> validKeys (domains sd AccountsDomain) differs_bytes (Vals l) 0 (Keys l))
      else if table = Domain_String E CodeDomain then
        (case list of None \<Rightarrow> Panic NilDereference
         | Some l \<Rightarrow> validKeys (domains sd CodeDomain) differs_bytes (Vals l) 0 (Keys l))
      else if table = Domain_String E StorageDomain then
        (case list of None \<Rightarrow> Panic NilDereference
         | Some l \<Rightarrow> validKeys (btree_Get (storage sd)) differs_bytes (Vals l) 0 (Keys l))
      else if table = CodeSizeTableFake then
        (case list of None \<Rightarrow> Panic NilDereference
         | Some l \<Rightarrow> validKeys (domains sd CodeDomain) differs_size (Vals l) 0 (Keys l))
      else Panic (PanicTable table))"

text \<open>\<^verbatim>\<open>readLists\<close> is a Go map; it is ranged over in the (arbitrary) order of the list.\<close>

fun ReadsValid ::
  "('s, 'w, 'c) ext \<Rightarrow> ('w, 'c) SharedDomains \<Rightarrow> (string \<times> KvList option) list \<Rightarrow> bool outcome" where
  "ReadsValid E sd [] = Ok True"
| "ReadsValid E sd (entry # readLists) =
     (case validTable E sd (fst entry) (snd entry) of
        Panic p \<Rightarrow> Panic p
      | Err e \<Rightarrow> Err e
      | Ok b \<Rightarrow> if b then ReadsValid E sd readLists else Ok False)"

section \<open>The verkle tree writer\<close>

text \<open>
  \<^verbatim>\<open>big.Int.Bytes\<close> (called through \<^verbatim>\<open>x.ToBig().Bytes()\<close>): the big-endian bytes of the
  absolute value, without leading zeros; the empty slice for 0.
\<close>

fun big_Bytes :: "nat \<Rightarrow> byte list" where
  "big_Bytes n = (if n = 0 then [] else big_Bytes (n div 256) @ [of_nat (n mod 256)])"

declare big_Bytes.simps [simp del]

text \<open>The loop of \<^verbatim>\<open>int256ToVerkleFormat\<close>: \<^verbatim>\<open>buffer[len(bbytes)-i-1] = b\<close> for the
  \<open>i\<close>-th byte \<open>b\<close>; an index outside the buffer panics.\<close>

fun int256_loop :: "nat \<Rightarrow> nat \<Rightarrow> byte list \<Rightarrow> byte list \<Rightarrow> byte list outcome" where
  "int256_loop n i [] buffer = Ok buffer"
| "int256_loop n i (b # bs) buffer =
     (if length buffer \<le> n - i - 1 then Panic IndexOutOfRange
      else int256_loop n (Suc i) bs (buffer[n - i - 1 := b]))"

definition int256ToVerkleFormat :: "256 word \<Rightarrow> byte list \<Rightarrow> byte list outcome" where
  "int256ToVerkleFormat x buffer =
     (let bbytes = big_Bytes (unat x) in
      if length bbytes > 0 then int256_loop (length bbytes) 0 bbytes buffer else Ok buffer)"

text \<open>\<^verbatim>\<open>binary.LittleEndian.PutUint64(b, v)\<close>: byte \<open>i\<close> of \<open>b\<close> becomes bits \<open>8i..8i+7\<close> of
  \<open>v\<close>, for \<open>i < 8\<close>; a shorter slice panics.\<close>

definition LittleEndian_PutUint64 :: "byte list \<Rightarrow> u64 \<Rightarrow> byte list outcome" where
  "LittleEndian_PutUint64 b v =
     (if length b < 8 then Panic IndexOutOfRange
      else Ok (map (\<lambda>i. ucast (drop_bit (8 * i) v)) [0..<8] @ drop 8 b))"

text \<open>The fields of \<^verbatim>\<open>accounts.Account\<close> that the writer reads.\<close>

record Account =
  Nonce :: u64
  Balance :: "256 word"
  CodeHash :: "byte list"

text \<open>
  The writer's collaborators, as parameters: the key-value transaction (\<open>'db\<close>), the
  sort-merge collector of package etl (\<open>'col\<close>), the nodes of the verkle library
  (\<open>'node\<close>), and the leaf-key constants of package vtree. \<open>collector_entries\<close> is the
  sorted stream that \<^verbatim>\<open>Load\<close> feeds to its callback (or the error \<^verbatim>\<open>Load\<close> fails with),
  \<open>load_next\<close> is the callback's \<^verbatim>\<open>next(k, nil, nil)\<close>, \<open>Load_identity\<close> is a \<^verbatim>\<open>Load\<close> with
  \<^verbatim>\<open>etl.IdentityLoadFunc\<close>. \<open>InsertOrdered\<close> and \<open>node_Flush\<close> return the nodes they
  hand to their flush callback, in order.
\<close>

record ('db, 'col, 'node) vext =
  Collect :: "'col \<Rightarrow> byte list \<Rightarrow> byte list \<Rightarrow> error option \<times> 'col"
  NewCollector :: "string \<Rightarrow> 'col"
  collector_entries :: "'col \<Rightarrow> error + (byte list \<times> byte list) list"
  load_next :: "'db \<Rightarrow> string \<Rightarrow> byte list \<Rightarrow> error option \<times> 'db"
  Load_identity :: "'col \<Rightarrow> 'db \<Rightarrow> string \<Rightarrow> error option \<times> 'db"
  ClearTable :: "'db \<Rightarrow> string \<Rightarrow> error option \<times> 'db"
  ReadVerkleNode :: "'db \<Rightarrow> byte list \<Rightarrow> error + 'node"
  WriteVerkleNode :: "'db \<Rightarrow> 'node \<Rightarrow> error option \<times> 'db"
  verkle_New :: "'node"
  InsertOrdered :: "'node \<Rightarrow> byte list \<Rightarrow> byte list \<Rightarrow> (error option \<times> 'node) \<times> 'node list"
  Insert :: "'node \<Rightarrow> 'db \<Rightarrow> byte list \<Rightarrow> byte list \<Rightarrow> error option \<times> 'node"
  node_Flush :: "'node \<Rightarrow> 'node list \<times> 'node"
  Commitment_Bytes :: "'node \<Rightarrow> byte list"
  Serialize :: "'node \<Rightarrow> error + byte list"
  VerkleTrie :: string
  CodeKeccakLeafKey :: byte
  NonceLeafKey :: byte
  BalanceLeafKey :: byte
  CodeSizeLeafKey :: byte

record ('db, 'col) VerkleTreeWriter =
  db :: 'db
  collector :: 'col

definition v_Collect ::
  "('db, 'col, 'node) vext \<Rightarrow> ('db, 'col) VerkleTreeWriter \<Rightarrow> byte list \<Rightarrow> byte list
     \<Rightarrow> unit outcome \<times> ('db, 'col) VerkleTreeWriter" where
  "v_Collect V v k val =
     (case Collect V (collector v) k val of
        (Some err, c) \<Rightarrow> (Err err, v\<lparr>collector := c\<rparr>)
      | (None, c) \<Rightarrow> (Ok (), v\<lparr>collector := c\<rparr>))"

text \<open>
  \<^verbatim>\<open>UpdateAccount\<close>. The mutex is not modelled. \<^verbatim>\<open>versionKey[:31]\<close> panics on a key
  shorter than 31 bytes. The seven arrays start as 32 zero bytes.
\<close>

definition UpdateAccount ::
  "('db, 'col, 'node) vext \<Rightarrow> ('db, 'col) VerkleTreeWriter \<Rightarrow> byte list \<Rightarrow> u64 \<Rightarrow> bool \<Rightarrow> Account
     \<Rightarrow> unit outcome \<times> ('db, 'col) VerkleTreeWriter" where
  "UpdateAccount V v versionKey codeSize isContract acc =
     (if length versionKey < 31 then (Panic IndexOutOfRange, v)
      else
        let zero32 = replicate 32 (0 :: byte);
            codeHashKey = (take 31 versionKey @ drop 31 zero32)[31 := CodeKeccakLeafKey V];
            nonceKey = (take 31 versionKey @ drop 31 zero32)[31 := NonceLeafKey V];
            balanceKey = (take 31 versionKey @ drop 31 zero32)[31 := BalanceLeafKey V];
            codeSizeKey = (take 31 versionKey @ drop 31 zero32)[31 := CodeSizeLeafKey V]
        in
        (case int256ToVerkleFormat (Balance acc) zero32 of
           Panic p \<Rightarrow> (Panic p, v)
         | Err e \<Rightarrow> (Err e, v)
         | Ok balance \<Rightarrow>
             (case LittleEndian_PutUint64 zero32 (Nonce acc) of
                Panic p \<Rightarrow> (Panic p, v)
              | Err e \<Rightarrow> (Err e, v)
              | Ok nonce \<Rightarrow>
                  and_then (v_Collect V v versionKey [0])
                    (\<lambda>v. and_then (v_Collect V v nonceKey nonce)
                       (\<lambda>v. and_then (v_Collect V v balanceKey balance)
                          (\<lambda>v. if isContract then
                                  (case LittleEndian_PutUint64 zero32 codeSize of
                                     Panic p \<Rightarrow> (Panic p, v)
                                   | Err e \<Rightarrow> (Err e, v)
                                   | Ok cs \<Rightarrow>
                                       and_then (v_Collect V v codeHashKey (CodeHash acc))
                                         (\<lambda>v. v_Collect V v codeSizeKey cs))
                                else (Ok (), v)))))))"

text \<open>The flush callbacks: \<^verbatim>\<open>collectVerkleNode\<close> and \<^verbatim>\<open>flushVerkleNode\<close> stop at the first
  error; the callback inside \<^verbatim>\<open>CommitVerkleTreeFromScratch\<close> panics on it.\<close>

fun collectNodes ::
  "('db, 'col, 'node) vext \<Rightarrow> 'col \<Rightarrow> 'node list \<Rightarrow> error option \<times> 'col" where
  "collectNodes V c [] = (None, c)"
| "collectNodes V c (n # ns) =
     (case Serialize V n of
        Inl err \<Rightarrow> (Some err, c)
      | Inr encodedNode \<Rightarrow>
          (case Collect V c (Commitment_Bytes V n) encodedNode of
             (Some err, c') \<Rightarrow> (Some err, c')
           | (None, c') \<Rightarrow> collectNodes V c' ns))"

definition collectVerkleNode ::
  "('db, 'col, 'node) vext \<Rightarrow> 'col \<Rightarrow> 'node \<Rightarrow> (error option \<times> 'col) \<times> 'node" where
  "collectVerkleNode V c node =
     (case node_Flush V node of (flushed, node') \<Rightarrow> (collectNodes V c flushed, node'))"

fun writeNodes ::
  "('db, 'col, 'node) vext \<Rightarrow> 'db \<Rightarrow> 'node list \<Rightarrow> error option \<times> 'db" where
  "writeNodes V d [] = (None, d)"
| "writeNodes V d (n # ns) =
     (case WriteVerkleNode V d n of
        (Some err, d') \<Rightarrow> (Some err, d')
      | (None, d') \<Rightarrow> writeNodes V d' ns)"

definition flushVerkleNode ::
  "('db, 'col, 'node) vext \<Rightarrow> 'db \<Rightarrow> 'node \<Rightarrow> (error option \<times> 'db) \<times> 'node" where
  "flushVerkleNode V d node =
     (case node_Flush V node of (flushed, node') \<Rightarrow> (writeNodes V d flushed, node'))"

fun collectOrPanic ::
  "('db, 'col, 'node) vext \<Rightarrow> 'col \<Rightarrow> 'node list \<Rightarrow> unit outcome \<times> 'col" where
  "collectOrPanic V c [] = (Ok (), c)"
| "collectOrPanic V c (n # ns) =
     (case Serialize V n of
        Inl err \<Rightarrow> (Panic (PanicValue 0), c)
      | Inr encodedNode \<Rightarrow>
          (case Collect V c (Commitment_Bytes V n) encodedNode of
             (Some err, c') \<Rightarrow> (Panic (PanicValue 0), c')
           | (None, c') \<Rightarrow> collectOrPanic V c' ns))"

text \<open>The callback of the first \<^verbatim>\<open>Load\<close> of \<^verbatim>\<open>CommitVerkleTreeFromScratch\<close>, run over the
  sorted stream; the state is the root, the second collector and the transaction.\<close>

fun scratch_load ::
  "('db, 'col, 'node) vext \<Rightarrow> (byte list \<times> byte list) list \<Rightarrow> 'node \<times> 'col \<times> 'db
     \<Rightarrow> unit outcome \<times> 'node \<times> 'col \<times> 'db" where
  "scratch_load V [] st = (Ok (), st)"
| "scratch_load V (kv # rest) (root, vc, d) =
     (if length (snd kv) = 0 then
        (case load_next V d (VerkleTrie V) (fst kv) of
           (Some err, d') \<Rightarrow> (Err err, (root, vc, d'))
         | (None, d') \<Rightarrow> scratch_load V rest (root, vc, d'))
      else
        (case InsertOrdered V root (fst kv) (snd kv) of
           ((ins_err, root'), flushed) \<Rightarrow>
             (case collectOrPanic V vc flushed of
                (Panic p, vc') \<Rightarrow> (Panic p, (root', vc', d))
              | (Err e, vc') \<Rightarrow> (Err e, (root', vc', d))
              | (Ok u, vc') \<Rightarrow>
                  (case ins_err of
                     Some err \<Rightarrow> (Err err, (root', vc', d))
                   | None \<Rightarrow>
                       (case load_next V d (VerkleTrie V) (fst kv) of
                          (Some err, d') \<Rightarrow> (Err err, (root', vc', d'))
                        | (None, d') \<Rightarrow> scratch_load V rest (root', vc', d'))))))"

definition zero_hash :: "byte list" where
  "zero_hash = replicate 32 0"

text \<open>
  The commit functions return a hash and an error; \<open>Ok (hash, None)\<close> is a return
  with a nil error, \<open>Ok (hash, Some err)\<close> a return with an error.
\<close>

definition scratch_rebuild ::
  "('db, 'col, 'node) vext \<Rightarrow> ('db, 'col) VerkleTreeWriter \<Rightarrow> 'db
     \<Rightarrow> (byte list \<times> error option) outcome \<times> ('db, 'col) VerkleTreeWriter" where
  "scratch_rebuild V v d =
     (case collector_entries V (collector v) of
        Inl err \<Rightarrow> (Ok (zero_hash, Some err), v\<lparr>db := d\<rparr>)
      | Inr entries \<Rightarrow>
          (case scratch_load V entries (verkle_New V, NewCollector V (VerkleTrie V), d) of
             (Panic p, (root, vc, d')) \<Rightarrow> (Panic p, v\<lparr>db := d'\<rparr>)
           | (Err err, (root, vc, d')) \<Rightarrow> (Ok (zero_hash, Some err), v\<lparr>db := d'\<rparr>)
           | (Ok u, (root, vc, d')) \<Rightarrow>
               (case collectVerkleNode V (collector v) root of
                  ((Some err, c), root') \<Rightarrow>
                    (Ok (zero_hash, Some err), v\<lparr>db := d', collector := c\<rparr>)
                | ((None, c), root') \<Rightarrow>
                    (case Load_identity V vc d' (VerkleTrie V) of
                       (err, d'') \<Rightarrow>
                         (Ok (Commitment_Bytes V root', err),
                          v\<lparr>db := d'', collector := c\<rparr>)))))"

text \<open>\<^verbatim>\<open>CommitVerkleTreeFromScratch\<close>: clear the table of the persisted trie, then rebuild
  (\<open>scratch_rebuild\<close> is the rest of the body, run on the transaction that
  \<^verbatim>\<open>ClearTable\<close> leaves).\<close>

definition CommitVerkleTreeFromScratch ::
  "('db, 'col, 'node) vext \<Rightarrow> ('db, 'col) VerkleTreeWriter
     \<Rightarrow> (byte list \<times> error option) outcome \<times> ('db, 'col) VerkleTreeWriter" where
  "CommitVerkleTreeFromScratch V v =
     (case ClearTable V (db v) (VerkleTrie V) of
        (Some err, d) \<Rightarrow> (Ok (zero_hash, Some err), v\<lparr>db := d\<rparr>)
      | (None, d) \<Rightarrow> scratch_rebuild V v d)"

text \<open>The callback of the \<^verbatim>\<open>Load\<close> of the incremental path; the state is the root, the
  insertion counter and the transaction. Every 2,000,000 insertions the tree is
  flushed.\<close>

definition insertionBeforeFlushing :: nat where
  "insertionBeforeFlushing = 2000000"

fun incremental_load ::
  "('db, 'col, 'node) vext \<Rightarrow> (byte list \<times> byte list) list \<Rightarrow> 'node \<times> nat \<times> 'db
     \<Rightarrow> unit outcome \<times> 'node \<times> nat \<times> 'db" where
  "incremental_load V [] st = (Ok (), st)"
| "incremental_load V (kv # rest) (rootNode, insertions, d) =
     (case (if length (snd kv) > 0
            then (case Insert V rootNode d (fst kv) (snd kv) of
                    (Some err, r) \<Rightarrow> (Some err, r, insertions)
                  | (None, r) \<Rightarrow> (None, r, insertions + 1))
            else (None, rootNode, insertions)) of
        (Some err, r, n) \<Rightarrow> (Err err, (r, n, d))
      | (None, r, n) \<Rightarrow>
          (case (if n > insertionBeforeFlushing
                 then (case flushVerkleNode V d r of
                         ((Some err, d'), r') \<Rightarrow> (Some err, r', n, d')
                       | ((None, d'), r') \<Rightarrow> (None, r', 0, d'))
                 else (None, r, n, d)) of
             (Some err, r', n', d') \<Rightarrow> (Err err, (r', n', d'))
           | (None, r', n', d') \<Rightarrow>
               (case load_next V d' (VerkleTrie V) (fst kv) of
                  (Some err, d'') \<Rightarrow> (Err err, (r', n', d''))
                | (None, d'') \<Rightarrow> incremental_load V rest (r', n', d''))))"

definition CommitVerkleTreeIncremental ::
  "('db, 'col, 'node) vext \<Rightarrow> ('db, 'col) VerkleTreeWriter \<Rightarrow> 'node
     \<Rightarrow> (byte list \<times> error option) outcome \<times> ('db, 'col) VerkleTreeWriter" where
  "CommitVerkleTreeIncremental V v rootNode =
     (case collector_entries V (collector v) of
        Inl err \<Rightarrow> (Ok (zero_hash, Some err), v)
      | Inr entries \<Rightarrow>
          (case incremental_load V entries (rootNode, 0, db v) of
             (Panic p, (r, n, d)) \<Rightarrow> (Panic p, v\<lparr>db := d\<rparr>)
           | (Err err, (r, n, d)) \<Rightarrow> (Ok (zero_hash, Some err), v\<lparr>db := d\<rparr>)
           | (Ok u, (r, n, d)) \<Rightarrow>
               (case flushVerkleNode V d r of
                  ((err, d'), r') \<Rightarrow> (Ok (Commitment_Bytes V r, err), v\<lparr>db := d'\<rparr>))))"

text \<open>\<^verbatim>\<open>CommitVerkleTree\<close>; \<open>CommitVerkleTreeIncremental\<close> is its body after the branch on
  the root.\<close>

definition CommitVerkleTree ::
  "('db, 'col, 'node) vext \<Rightarrow> ('db, 'col) VerkleTreeWriter \<Rightarrow> byte list
     \<Rightarrow> (byte list \<times> error option) outcome \<times> ('db, 'col) VerkleTreeWriter" where
  "CommitVerkleTree V v root =
     (if root \<noteq> zero_hash then
        (case ReadVerkleNode V (db v) root of
           Inl err \<Rightarrow> (Ok (zero_hash, Some err), v)
         | Inr rootNode \<Rightarrow> CommitVerkleTreeIncremental V v rootNode)
      else CommitVerkleTreeFromScratch V v)"

section \<open>In-memory collaborators for evaluation\<close>

text \<open>
  A small instance of the collaborators, used to evaluate the overlay at concrete
  inputs: the store is a list of (domain index, key, value, step) with the latest
  entry first, a writer buffers (writer, key, value) and pushes its buffer into the
  store on flush, the commitment context is the list of touches. Writer \<open>i\<close> belongs
  to the domain of index \<open>i\<close>. The step size is 16.
\<close>

type_synonym mem_store = "(nat \<times> key \<times> bytes \<times> u64) list"
type_synonym mem_writers = "(wref \<times> bytes \<times> bytes) list"
type_synonym mem_ctx = "(domain \<times> key \<times> bytes) list"

definition mem_latest :: "mem_store \<Rightarrow> domain \<Rightarrow> bytes \<Rightarrow> error + (bytes \<times> u64)" where
  "mem_latest s d k =
     (case find (\<lambda>e. fst e = domain_index d \<and> fst (snd e) = go_string k) s of
        None \<Rightarrow> Inr (None, 0)
      | Some e \<Rightarrow> Inr (snd (snd e)))"

definition mem_cursor :: "mem_store \<Rightarrow> domain \<Rightarrow> key \<Rightarrow> error + (key \<times> bytes \<times> u64) list" where
  "mem_cursor s d pfx =
     Inr (map snd (filter (\<lambda>e. fst e = domain_index d \<and> HasPrefix (fst (snd e)) pfx) s))"

definition mem_flush :: "mem_writers \<Rightarrow> wref \<Rightarrow> mem_store \<Rightarrow> error option \<times> mem_writers \<times> mem_store" where
  "mem_flush W w s =
     (None, filter (\<lambda>e. fst e \<noteq> w) W,
      map (\<lambda>e. (w, go_string (fst (snd e)), snd (snd e), 0)) (rev (filter (\<lambda>e. fst e = w) W)) @ s)"

definition mem_names :: "domain \<Rightarrow> string" where
  "mem_names d = (case d of AccountsDomain \<Rightarrow> ''accounts'' | StorageDomain \<Rightarrow> ''storage''
                  | CodeDomain \<Rightarrow> ''code'' | CommitmentDomain \<Rightarrow> ''commitment''
                  | ReceiptDomain \<Rightarrow> ''receipt'' | RCacheDomain \<Rightarrow> ''rcache'')"

definition mem_ext :: "(mem_store, mem_writers, mem_ctx) ext" where
  "mem_ext =
     \<lparr>StepSize = 16,
      tx_GetLatest = mem_latest,
      tx_cursor = mem_cursor,
      tx_Unwind = (\<lambda>s n cs. (None, s)),
      tx_PruneSmallBatches = (\<lambda>s n. (None, s)),
      closeValsCursor = (\<lambda>s d. s),
      WriteDiffSet = (\<lambda>s W n k c. (None, s)),
      PutWithPrev = (\<lambda>W w k1 k2 v n pv ps. (None, W @ [(w, go_append k1 k2, v)])),
      DeleteWithPrev = (\<lambda>W w k1 k2 n pv ps. (None, W @ [(w, go_append k1 k2, None)])),
      writer_Flush = mem_flush,
      writer_Close = (\<lambda>W w. W),
      ii_Flush = (\<lambda>W w s. (None, W, s)),
      ii_close = (\<lambda>W w. W),
      TouchKey = (\<lambda>c d k v. c @ [(d, k, v)]),
      ctx_updates_Reset = (\<lambda>c. []),
      ctx_Reset = (\<lambda>c. []),
      ComputeRoot = (\<lambda>c reader n. (Inr [of_nat (length c)], [])),
      PruneOnFlushTimeout = 0,
      assert_Enable = True,
      Domain_String = mem_names\<rparr>"

text \<open>The overlay as \<^verbatim>\<open>NewSharedDomains\<close> leaves it, at transaction 40, and a heap whose
  transaction 0 is the empty store.\<close>

definition mem_sd :: "(mem_writers, mem_ctx) SharedDomains" where
  "mem_sd =
     \<lparr>sdCtx = [], roTtx = 0, txNum = 40, blockNum = 2, estSize = 0,
      domains = (\<lambda>d. Map.empty), storage = [],
      domainWriters = (\<lambda>d. Some (domain_index d)), iiWriters = [],
      writers = [], currentChangesAccumulator = None, pastChangesAccumulator = []\<rparr>"

definition mem_heap :: "txref \<Rightarrow> mem_store" where
  "mem_heap = (\<lambda>r. [])"

text \<open>
  An instance of the verkle writer's collaborators: the table of persisted nodes and
  both collectors are lists of key-value pairs, a node is the list of the leaves
  inserted so far, its commitment is 31 zero bytes followed by the number of its
  leaves, and a node is persisted under its commitment.
\<close>

type_synonym mem_kv = "(byte list \<times> byte list) list"

definition mem_commitment :: "mem_kv \<Rightarrow> byte list" where
  "mem_commitment n = replicate 31 0 @ [of_nat (length n)]"

definition mem_vext :: "(mem_kv, mem_kv, mem_kv) vext" where
  "mem_vext =
     \<lparr>Collect = (\<lambda>c k x. (None, c @ [(k, x)])),
      NewCollector = (\<lambda>name. []),
      collector_entries = (\<lambda>c. Inr c),
      load_next = (\<lambda>d t k. (None, d)),
      Load_identity = (\<lambda>c d t. (None, c @ d)),
      ClearTable = (\<lambda>d t. (None, [])),
      ReadVerkleNode = (\<lambda>d root. case map_of d root of
                                    None \<Rightarrow> Inl (ErrExternal 1)
                                  | Some enc \<Rightarrow> Inr [(root, enc)]),
      WriteVerkleNode = (\<lambda>d n. (None, (mem_commitment n, concat (map fst n)) # d)),
      verkle_New = [],
      InsertOrdered = (\<lambda>n k x. ((None, n @ [(k, x)]), [])),
      Insert = (\<lambda>n d k x. (None, n @ [(k, x)])),
      node_Flush = (\<lambda>n. ([n], n)),
      Commitment_Bytes = mem_commitment,
      Serialize = (\<lambda>n. Inr (concat (map fst n))),
      VerkleTrie = ''VerkleTrie'',
      CodeKeccakLeafKey = 3,
      NonceLeafKey = 2,
      BalanceLeafKey = 1,
      CodeSizeLeafKey = 4\<rparr>"

definition mem_writer :: "(mem_kv, mem_kv) VerkleTreeWriter" where
  "mem_writer = \<lparr>db = [(replicate 31 0 @ [1], [9])], collector = [([5], [6])]\<rparr>"

section \<open>Notions used in the statements\<close>

text \<open>
  A put is suppressed when the domain is Code or one of the generic domains (here
  \<open>ReceiptDomain\<close>) and the new value equals, as a byte string, the previous value:
  the one the caller supplied or, when the caller supplied nil, the one \<^verbatim>\<open>GetLatest\<close>
  returns. \<^verbatim>\<open>DomainPut\<close> then returns nil without touching the overlay.
\<close>

definition put_suppressed ::
  "('s, 'w, 'c) ext \<Rightarrow> (txref \<Rightarrow> 's) \<Rightarrow> ('w, 'c) SharedDomains \<Rightarrow> domain \<Rightarrow> bytes \<Rightarrow> bytes \<Rightarrow> bytes \<Rightarrow> bool" where
  "put_suppressed E h sd domain k val prevVal =
     ((domain = CodeDomain \<or> domain = ReceiptDomain) \<and>
      (case (if prevVal = None then GetLatest E h sd domain k else Ok (prevVal, 0)) of
         Ok pv \<Rightarrow> bytes_Equal (fst pv) val
       | Err e \<Rightarrow> False
       | Panic p \<Rightarrow> False))"

text \<open>The in-memory read cache of the overlay: the per-domain maps and the sorted
  storage map.\<close>

definition read_cache ::
  "('w, 'c) SharedDomains \<Rightarrow> (domain \<Rightarrow> key \<rightharpoonup> dataWithPrevStep) \<times> dataWithPrevStep btree" where
  "read_cache sd = (domains sd, storage sd)"

text \<open>
  The unwind protocol in the words of the spec (4.2): five steps on the overlay and
  the heap of transactions, run in order; a step that does not return nil ends the
  run with its result, and no later step runs.
\<close>

fun run_steps :: "('st \<Rightarrow> unit outcome \<times> 'st) list \<Rightarrow> 'st \<Rightarrow> unit outcome \<times> 'st" where
  "run_steps [] st = (Ok (), st)"
| "run_steps (f # fs) st =
     (case f st of
        (Ok u, st') \<Rightarrow> run_steps fs st'
      | (Err e, st') \<Rightarrow> (Err e, st')
      | (Panic p, st') \<Rightarrow> (Panic p, st'))"

definition step_flush ::
  "('s, 'w, 'c) ext \<Rightarrow> txref \<Rightarrow> ('w, 'c) SharedDomains \<times> (txref \<Rightarrow> 's)
     \<Rightarrow> unit outcome \<times> ('w, 'c) SharedDomains \<times> (txref \<Rightarrow> 's)" where
  "step_flush E rwTx st = Flush E (snd st) (fst st) rwTx"

definition step_store_unwind ::
  "('s, 'w, 'c) ext \<Rightarrow> txref \<Rightarrow> u64 \<Rightarrow> diffset \<Rightarrow> ('w, 'c) SharedDomains \<times> (txref \<Rightarrow> 's)
     \<Rightarrow> unit outcome \<times> ('w, 'c) SharedDomains \<times> (txref \<Rightarrow> 's)" where
  "step_store_unwind E rwTx txTo changeset st =
     (case tx_Unwind E (snd st rwTx) txTo changeset of
        (None, s) \<Rightarrow> (Ok (), (fst st, (snd st)(rwTx := s)))
      | (Some err, s) \<Rightarrow> (Err err, (fst st, (snd st)(rwTx := s))))"

definition step_clear ::
  "('s, 'w, 'c) ext \<Rightarrow> ('w, 'c) SharedDomains \<times> (txref \<Rightarrow> 's)
     \<Rightarrow> unit outcome \<times> ('w, 'c) SharedDomains \<times> (txref \<Rightarrow> 's)" where
  "step_clear E st =
     (Ok (), ((fst st)\<lparr>domains := (\<lambda>d. Map.empty), storage := [], estSize := 0,
                        sdCtx := ctx_Reset E (ctx_updates_Reset E (sdCtx (fst st)))\<rparr>, snd st))"

definition step_position ::
  "u64 \<Rightarrow> u64 \<Rightarrow> ('w, 'c) SharedDomains \<times> (txref \<Rightarrow> 's)
     \<Rightarrow> unit outcome \<times> ('w, 'c) SharedDomains \<times> (txref \<Rightarrow> 's)" where
  "step_position blockTo txTo st = (Ok (), ((fst st)\<lparr>txNum := txTo, blockNum := blockTo\<rparr>, snd st))"

definition unwind_protocol ::
  "('s, 'w, 'c) ext \<Rightarrow> txref \<Rightarrow> u64 \<Rightarrow> u64 \<Rightarrow> diffset
     \<Rightarrow> (('w, 'c) SharedDomains \<times> (txref \<Rightarrow> 's) \<Rightarrow> unit outcome \<times> ('w, 'c) SharedDomains \<times> (txref \<Rightarrow> 's)) list" where
  "unwind_protocol E rwTx blockTo txTo changeset =
     [step_flush E rwTx,
      step_store_unwind E rwTx txTo changeset,
      step_clear E,
      step_position blockTo txTo,
      step_flush E rwTx]"

text \<open>
  The read-set check in the words of the spec. A table of the read-set is recognised
  when it is the name of the Accounts, Code or Storage domain or the pseudo-table
  \<^verbatim>\<open>CodeSize\<close>. The current overlay value of a key is the cached value of that domain
  (the Code domain for \<^verbatim>\<open>CodeSize\<close>), if the key is cached. It differs from the recorded
  value when the byte strings differ or, for \<^verbatim>\<open>CodeSize\<close>, when the recorded 8-byte
  big-endian size is not the length of the cached code. A read-set is well formed
  when every table is recognised, every list is non-nil and has a value for each
  key, and every recorded size has its 8 bytes.
\<close>

definition recognised :: "('s, 'w, 'c) ext \<Rightarrow> string \<Rightarrow> bool" where
  "recognised E t =
     (t = Domain_String E AccountsDomain \<or> t = Domain_String E CodeDomain
      \<or> t = Domain_String E StorageDomain \<or> t = CodeSizeTableFake)"

definition by_size :: "('s, 'w, 'c) ext \<Rightarrow> string \<Rightarrow> bool" where
  "by_size E t =
     (t = CodeSizeTableFake \<and> t \<noteq> Domain_String E AccountsDomain
      \<and> t \<noteq> Domain_String E CodeDomain \<and> t \<noteq> Domain_String E StorageDomain)"

definition overlay_value ::
  "('s, 'w, 'c) ext \<Rightarrow> ('w, 'c) SharedDomains \<Rightarrow> string \<Rightarrow> key \<Rightarrow> bytes option" where
  "overlay_value E sd t k =
     map_option data
       (if t = Domain_String E AccountsDomain then domains sd AccountsDomain k
        else if t = Domain_String E StorageDomain \<and> t \<noteq> Domain_String E CodeDomain
        then btree_Get (storage sd) k
        else domains sd CodeDomain k)"

definition value_differs :: "('s, 'w, 'c) ext \<Rightarrow> string \<Rightarrow> bytes \<Rightarrow> bytes \<Rightarrow> bool" where
  "value_differs E t expected current =
     (if by_size E t
      then (case BigEndian_Uint64 (go_string expected) of
              Ok n \<Rightarrow> n \<noteq> of_nat (go_len current)
            | Err e \<Rightarrow> False
            | Panic p \<Rightarrow> False)
      else go_string expected \<noteq> go_string current)"

definition stale :: "('s, 'w, 'c) ext \<Rightarrow> ('w, 'c) SharedDomains \<Rightarrow> string \<Rightarrow> key \<Rightarrow> bytes \<Rightarrow> bool" where
  "stale E sd t k expected =
     (case overlay_value E sd t k of
        None \<Rightarrow> False
      | Some current \<Rightarrow> value_differs E t expected current)"

definition well_formed :: "('s, 'w, 'c) ext \<Rightarrow> string \<times> KvList option \<Rightarrow> bool" where
  "well_formed E entry =
     (recognised E (fst entry) \<and>
      (case snd entry of
         None \<Rightarrow> False
       | Some l \<Rightarrow> length (Keys l) \<le> length (Vals l) \<and>
                  (by_size E (fst entry) \<longrightarrow> (\<forall>v \<in> set (Vals l). 8 \<le> go_len v))))"

definition some_stale ::
  "('s, 'w, 'c) ext \<Rightarrow> ('w, 'c) SharedDomains \<Rightarrow> (string \<times> KvList option) list \<Rightarrow> bool" where
  "some_stale E sd readLists =
     (\<exists>entry \<in> set readLists. \<exists>l i. snd entry = Some l \<and> i < length (Keys l) \<and>
        stale E sd (fst entry) (Keys l ! i) (Vals l ! i))"

text \<open>
  The leaves of an account in the words of the spec (4.4) and of the claim: the
  sub-key of a leaf is the first 31 bytes of the version key followed by the leaf's
  constant; a numeric field is an 8-byte little-endian integer in a 32-byte buffer;
  the balance is its big-endian big-integer byte string, reversed, in a 32-byte
  buffer. \<open>le_nat\<close> reads a byte string as a little-endian number. \<open>stage\<close> hands the
  leaves to the collector in order and stops at the first error.
\<close>

fun le_bytes :: "nat \<Rightarrow> nat \<Rightarrow> byte list" where
  "le_bytes 0 n = []"
| "le_bytes (Suc k) n = of_nat (n mod 256) # le_bytes k (n div 256)"

fun le_nat :: "byte list \<Rightarrow> nat" where
  "le_nat [] = 0"
| "le_nat (b # bs) = unat b + 256 * le_nat bs"

definition le64_leaf :: "u64 \<Rightarrow> byte list" where
  "le64_leaf v = le_bytes 8 (unat v) @ replicate 24 0"

definition balance_leaf :: "256 word \<Rightarrow> byte list" where
  "balance_leaf b = rev (big_Bytes (unat b)) @ replicate (32 - length (big_Bytes (unat b))) 0"

definition sub_key :: "byte list \<Rightarrow> byte \<Rightarrow> byte list" where
  "sub_key versionKey c = take 31 versionKey @ [c]"

definition account_leaves ::
  "('db, 'col, 'node) vext \<Rightarrow> byte list \<Rightarrow> u64 \<Rightarrow> bool \<Rightarrow> Account \<Rightarrow> (byte list \<times> byte list) list" where
  "account_leaves V versionKey codeSize isContract acc =
     [(versionKey, [0]),
      (sub_key versionKey (NonceLeafKey V), le64_leaf (Nonce acc)),
      (sub_key versionKey (BalanceLeafKey V), balance_leaf (Balance acc))]
     @ (if isContract
        then [(sub_key versionKey (CodeKeccakLeafKey V), CodeHash acc),
              (sub_key versionKey (CodeSizeLeafKey V), le64_leaf codeSize)]
        else [])"

fun stage ::
  "('db, 'col, 'node) vext \<Rightarrow> ('db, 'col) VerkleTreeWriter \<Rightarrow> (byte list \<times> byte list) list
     \<Rightarrow> unit outcome \<times> ('db, 'col) VerkleTreeWriter" where
  "stage V v [] = (Ok (), v)"
| "stage V v (leaf # leaves) = and_then (v_Collect V v (fst leaf) (snd leaf)) (\<lambda>v. stage V v leaves)"


section \<open>Evaluation and basic facts\<close>

lemmas mem_defs = mem_ext_def mem_sd_def mem_heap_def mem_latest_def mem_cursor_def mem_flush_def
  mem_names_def

lemmas go_defs = go_string_def go_len_def bytes_Equal_def go_append_def toStringZeroCopy_def
  toBytesZeroCopy_def HasPrefix_def

lemmas upd_defs = and_then_def put_def get_def touch_def writer_PutWithPrev_def
  writer_DeleteWithPrev_def updateAccountData_def updateAccountCode_def updateCommitmentData_def
  writeAccountStorage_def delAccountStorage_def btree_Get_def btree_Set_def GetLatest_def
  LatestCommitment_def

lemmas flush_defs = Flush_def ComputeCommitment_def pruneOnFlush_def all_domains_def BigEndian_Uint64_def


lemmas reads_defs = validTable_def differs_bytes_def differs_size_def CodeSizeTableFake_def
  recognised_def by_size_def overlay_value_def value_differs_def stale_def well_formed_def
  some_stale_def

section \<open>The cache after a write\<close>

lemma get_cong:
  "domains sd' = domains sd \<Longrightarrow> storage sd' = storage sd \<Longrightarrow> get sd' d k = get sd d k"
  by (simp add: get_def split: outcome.splits)

lemma get_after_put:
  assumes "put E sd domain k val = (Ok (), sd')" and "k \<noteq> []"
  shows "get sd' domain (Some k) = Ok (val, txNum sd div StepSize E, True)"
  using assms
  by (auto simp: put_def get_def btree_Set_def btree_Get_def toStringZeroCopy_def go_len_def go_string_def Let_def
      split: if_splits option.splits)

lemma writer_PutWithPrev_cache:
  "writer_PutWithPrev E sd d k1 k2 v n pv ps = (r, sd') \<Longrightarrow>
     domains sd' = domains sd \<and> storage sd' = storage sd"
  by (auto simp: writer_PutWithPrev_def split: option.splits prod.splits)

lemma writer_DeleteWithPrev_cache:
  "writer_DeleteWithPrev E sd d k1 k2 n pv ps = (r, sd') \<Longrightarrow>
     domains sd' = domains sd \<and> storage sd' = storage sd"
  by (auto simp: writer_DeleteWithPrev_def split: option.splits prod.splits)

lemma touch_txNum [simp]: "txNum (touch E sd d k v) = txNum sd"
  by (simp add: touch_def)

lemma and_then_OkD:
  "and_then r f = (Ok u, st') \<Longrightarrow> \<exists>st. r = (Ok (), st) \<and> f st = (Ok (), st')"
  by (auto simp: and_then_def split: prod.splits outcome.splits)

lemma GetLatest_hit:
  "get sd domain k = Ok (v, s, True) \<Longrightarrow> GetLatest E h sd domain k = Ok (v, s)"
  by (auto simp: GetLatest_def LatestCommitment_def)

lemma put_then_writer:
  assumes "and_then (put E sd0 domain k val)
             (\<lambda>sd. writer_PutWithPrev E sd domain k1 k2 val (txNum sd) pv ps) = (Ok (), sd')"
    and "k \<noteq> []"
  shows "get sd' domain (Some k) = Ok (val, txNum sd0 div StepSize E, True)"
proof -
  from and_then_OkD [OF assms(1)] obtain sd1 where p: "put E sd0 domain k val = (Ok (), sd1)"
    and w: "writer_PutWithPrev E sd1 domain k1 k2 val (txNum sd1) pv ps = (Ok (), sd')"
    by blast
  have "get sd' domain (Some k) = get sd1 domain (Some k)"
    using writer_PutWithPrev_cache [OF w] by (intro get_cong) simp_all
  then show ?thesis using get_after_put [OF p assms(2)] by simp
qed

lemma put_then_writer_del:
  assumes "and_then (put E sd0 domain k val)
             (\<lambda>sd. writer_DeleteWithPrev E sd domain k1 k2 (txNum sd) pv ps) = (Ok (), sd')"
    and "k \<noteq> []"
  shows "get sd' domain (Some k) = Ok (val, txNum sd0 div StepSize E, True)"
proof -
  from and_then_OkD [OF assms(1)] obtain sd1 where p: "put E sd0 domain k val = (Ok (), sd1)"
    and w: "writer_DeleteWithPrev E sd1 domain k1 k2 (txNum sd1) pv ps = (Ok (), sd')"
    by blast
  have "get sd' domain (Some k) = get sd1 domain (Some k)"
    using writer_DeleteWithPrev_cache [OF w] by (intro get_cong) simp_all
  then show ?thesis using get_after_put [OF p assms(2)] by simp
qed

lemma updateAccountData_cached:
  assumes "updateAccountData E sd (Some ks) val pv ps = (Ok (), sd')" and "ks \<noteq> []"
  shows "get sd' AccountsDomain (Some ks) = Ok (val, txNum sd div StepSize E, True)"
  using put_then_writer [of E "touch E sd AccountsDomain ks val" AccountsDomain ks val] assms
  by (simp add: updateAccountData_def go_string_def Let_def)

lemma writeAccountStorage_cached:
  assumes "writeAccountStorage E sd (Some ks) None val pv ps = (Ok (), sd')" and "ks \<noteq> []"
  shows "get sd' StorageDomain (Some ks) = Ok (val, txNum sd div StepSize E, True)"
  using put_then_writer [of E "touch E sd StorageDomain ks val" StorageDomain ks val] assms
  by (simp add: writeAccountStorage_def go_string_def Let_def)

lemma updateAccountCode_cached:
  assumes "updateAccountCode E sd (Some ks) val pv ps = (Ok (), sd')" and "ks \<noteq> []"
  shows "get sd' CodeDomain (Some ks) = Ok (val, txNum sd div StepSize E, True)"
proof (cases "go_len val = 0")
  case True
  then show ?thesis
    using put_then_writer_del [of E "touch E sd CodeDomain ks val" CodeDomain ks val] assms
    by (simp add: updateAccountCode_def go_string_def Let_def)
next
  case False
  then show ?thesis
    using put_then_writer [of E "touch E sd CodeDomain ks val" CodeDomain ks val] assms
    by (simp add: updateAccountCode_def go_string_def Let_def)
qed

lemma generic_put_cached:
  assumes "(case toStringZeroCopy (go_append (Some ks) None) of
              Panic p \<Rightarrow> (Panic p, sd)
            | Err e \<Rightarrow> (Err e, sd)
            | Ok keyS \<Rightarrow>
                and_then (put E sd domain keyS val)
                  (\<lambda>sd. writer_PutWithPrev E sd domain (Some ks) None val (txNum sd) pv ps))
           = (Ok (), sd')"
    and "ks \<noteq> []"
  shows "get sd' domain (Some ks) = Ok (val, txNum sd div StepSize E, True)"
  using put_then_writer [of E sd domain ks val] assms
  by (simp add: toStringZeroCopy_def go_append_def go_len_def go_string_def)



section \<open>Claims about \<^verbatim>\<open>DomainPut\<close> and \<^verbatim>\<open>GetLatest\<close>\<close>

text \<open>
  Claim C1, as amended. For every domain, every non-empty key \<open>k\<close> and every non-nil
  value \<open>v\<close>: after a successful \<^verbatim>\<open>DomainPut\<close> of \<open>v\<close> under \<open>k\<close> that was not suppressed
  as a no-op, the overlay holds \<open>v\<close> under \<open>k\<close> with the step \<open>txNum div StepSize\<close> of
  the time of the put, and \<^verbatim>\<open>GetLatest\<close> returns exactly that, whatever the
  transactions of the store hold: the store is not consulted.
\<close>

theorem DomainPut_then_GetLatest:
  assumes ok: "DomainPut E h sd domain k None (Some v) prevVal step = (Ok (), sd')"
    and nonempty: "go_len k \<noteq> 0"
    and written: "\<not> put_suppressed E h sd domain k (Some v) prevVal"
  shows "get sd' domain k = Ok (Some v, txNum sd div StepSize E, True)
         \<and> (\<forall>h'. GetLatest E h' sd' domain k = Ok (Some v, txNum sd div StepSize E))"
proof -
  obtain ks where k: "k = Some ks" "ks \<noteq> []"
    using nonempty by (cases k) (auto simp: go_len_def go_string_def)
  obtain pv ps where prev:
    "(if prevVal = None then GetLatest E h sd domain k else Ok (prevVal, step)) = Ok (pv, ps)"
    using ok by (auto simp: DomainPut_def split: outcome.splits)
  have neq: "domain = CodeDomain \<or> domain = ReceiptDomain \<Longrightarrow> \<not> bytes_Equal pv (Some v)"
    using written prev by (auto simp: put_suppressed_def split: if_splits)
  have body: "(case domain of
                AccountsDomain \<Rightarrow> updateAccountData E sd k (Some v) pv ps
              | StorageDomain \<Rightarrow> writeAccountStorage E sd k None (Some v) pv ps
              | CodeDomain \<Rightarrow>
                  if bytes_Equal pv (Some v) then (Ok (), sd)
                  else updateAccountCode E sd k (Some v) pv ps
              | CommitmentDomain \<Rightarrow>
                  (case toStringZeroCopy (go_append k None) of
                     Panic p \<Rightarrow> (Panic p, sd)
                   | Err e \<Rightarrow> (Err e, sd)
                   | Ok keyS \<Rightarrow>
                       and_then (put E sd domain keyS (Some v))
                         (\<lambda>sd. writer_PutWithPrev E sd domain k None (Some v) (txNum sd) pv ps))
              | RCacheDomain \<Rightarrow>
                  (case toStringZeroCopy (go_append k None) of
                     Panic p \<Rightarrow> (Panic p, sd)
                   | Err e \<Rightarrow> (Err e, sd)
                   | Ok keyS \<Rightarrow>
                       and_then (put E sd domain keyS (Some v))
                         (\<lambda>sd. writer_PutWithPrev E sd domain k None (Some v) (txNum sd) pv ps))
              | ReceiptDomain \<Rightarrow>
                  if bytes_Equal pv (Some v) then (Ok (), sd)
                  else
                    (case toStringZeroCopy (go_append k None) of
                       Panic p \<Rightarrow> (Panic p, sd)
                     | Err e \<Rightarrow> (Err e, sd)
                     | Ok keyS \<Rightarrow>
                         and_then (put E sd domain keyS (Some v))
                           (\<lambda>sd. writer_PutWithPrev E sd domain k None (Some v) (txNum sd) pv ps)))
             = (Ok (), sd')"
    using ok prev by (simp add: DomainPut_def)
  have "get sd' domain (Some ks) = Ok (Some v, txNum sd div StepSize E, True)"
  proof (cases domain)
    case AccountsDomain
    then show ?thesis using body k(2) unfolding k(1)
      by (auto intro: updateAccountData_cached)
  next
    case StorageDomain
    then show ?thesis using body k(2) unfolding k(1)
      by (auto intro: writeAccountStorage_cached)
  next
    case CodeDomain
    then show ?thesis using body k(2) neq unfolding k(1)
      by (auto intro: updateAccountCode_cached)
  next
    case CommitmentDomain
    then show ?thesis using body k(2) unfolding k(1)
      by (auto intro: generic_put_cached)
  next
    case ReceiptDomain
    then show ?thesis using body k(2) neq unfolding k(1)
      by (auto intro: generic_put_cached)
  next
    case RCacheDomain
    then show ?thesis using body k(2) unfolding k(1)
      by (auto intro: generic_put_cached)
  qed
  then show ?thesis
    using k by (auto intro: GetLatest_hit)
qed

theorem DomainPut_then_GetLatest_witness:
  "DomainPut mem_ext mem_heap mem_sd StorageDomain (Some [1, 2]) None (Some [7]) None 0
     = (Ok (), snd (DomainPut mem_ext mem_heap mem_sd StorageDomain (Some [1, 2]) None (Some [7]) None 0))
   \<and> go_len (Some [1, 2]) \<noteq> 0
   \<and> \<not> put_suppressed mem_ext mem_heap mem_sd StorageDomain (Some [1, 2]) (Some [7]) None
   \<and> GetLatest mem_ext (\<lambda>r. [(1, [1, 2], Some [8], 0)])
        (snd (DomainPut mem_ext mem_heap mem_sd StorageDomain (Some [1, 2]) None (Some [7]) None 0))
        StorageDomain (Some [1, 2]) = Ok (Some [7], 2)"
proof -
  have a: "DomainPut mem_ext mem_heap mem_sd StorageDomain (Some [1, 2]) None (Some [7]) None 0
     = (Ok (), snd (DomainPut mem_ext mem_heap mem_sd StorageDomain (Some [1, 2]) None (Some [7]) None 0))"
    by (simp add: DomainPut_def upd_defs go_defs mem_defs Let_def)
  have b: "go_len (Some [1, 2 :: byte]) \<noteq> 0" by (simp add: go_defs)
  have c: "\<not> put_suppressed mem_ext mem_heap mem_sd StorageDomain (Some [1, 2]) (Some [7]) None"
    by (simp add: put_suppressed_def)
  have d: "txNum mem_sd div StepSize mem_ext = 2"
    by (simp add: mem_defs)
  show ?thesis
    using DomainPut_then_GetLatest [OF a b c] a b c d by simp
qed


text \<open>
  Claim C1 as stated fails on the Code domain: the store holds the value 7 under the
  key, the overlay holds nothing; \<^verbatim>\<open>DomainPut\<close> of the same value succeeds and leaves
  the overlay as it was, so the key is still not cached, and \<^verbatim>\<open>GetLatest\<close> answers from
  the store (another store gives another answer).
\<close>

theorem DomainPut_code_noop_counterexample:
  "DomainPut mem_ext (\<lambda>r. [(2, [1, 2], Some [7], 0)]) mem_sd CodeDomain (Some [1, 2]) None (Some [7]) None 0
     = (Ok (), mem_sd)
   \<and> get mem_sd CodeDomain (Some [1, 2]) = Ok (None, 0, False)
   \<and> GetLatest mem_ext (\<lambda>r. [(2, [1, 2], Some [7], 0)]) mem_sd CodeDomain (Some [1, 2]) = Ok (Some [7], 0)
   \<and> GetLatest mem_ext (\<lambda>r. [(2, [1, 2], Some [8], 5)]) mem_sd CodeDomain (Some [1, 2]) = Ok (Some [8], 5)"
  by (simp add: DomainPut_def upd_defs go_defs mem_defs Let_def)


text \<open>
  Claim C7, as amended. For every domain and key, \<^verbatim>\<open>DomainPut\<close> with a nil value (and a
  nil second key part) returns the error "trying to put nil value" and leaves the
  overlay, the write buffers and the commitment context unchanged; with a nil value
  no call succeeds or changes the state, whatever the second key part.
\<close>

theorem DomainPut_nil_value:
  "DomainPut E h sd domain k1 None None prevVal step = (Err (ErrPutNil (domain_index domain)), sd)
   \<and> fst (DomainPut E h sd domain k1 k2 None prevVal step) \<noteq> Ok ()
   \<and> snd (DomainPut E h sd domain k1 k2 None prevVal step) = sd"
  by (simp add: DomainPut_def)

theorem DomainPut_nil_value_witness:
  "DomainPut mem_ext mem_heap mem_sd StorageDomain (Some [1, 2]) None None None 0
     = (Err (ErrPutNil 1), mem_sd)"
  using DomainPut_nil_value [of mem_ext mem_heap mem_sd StorageDomain "Some [1, 2]" None 0 None]
  by simp

text \<open>
  Claim C7 as stated fails for a value that is empty but not nil: \<^verbatim>\<open>DomainPut\<close> accepts
  it, caches it, touches the key and buffers the write.
\<close>

theorem DomainPut_empty_value_counterexample:
  "fst (DomainPut mem_ext mem_heap mem_sd AccountsDomain (Some [1, 2]) None (Some []) (Some [9]) 0) = Ok ()
   \<and> snd (DomainPut mem_ext mem_heap mem_sd AccountsDomain (Some [1, 2]) None (Some []) (Some [9]) 0) \<noteq> mem_sd
   \<and> domains (snd (DomainPut mem_ext mem_heap mem_sd AccountsDomain (Some [1, 2]) None (Some []) (Some [9]) 0))
        AccountsDomain [1, 2] = Some \<lparr>data = Some [], prevStep = 2\<rparr>
   \<and> writers (snd (DomainPut mem_ext mem_heap mem_sd AccountsDomain (Some [1, 2]) None (Some []) (Some [9]) 0))
        = [(0, Some [1, 2], Some [])]
   \<and> sdCtx (snd (DomainPut mem_ext mem_heap mem_sd AccountsDomain (Some [1, 2]) None (Some []) (Some [9]) 0))
        = [(AccountsDomain, [1, 2], Some [])]"
  by (simp add: DomainPut_def upd_defs go_defs mem_defs Let_def)


text \<open>
  Claim C9. For every domain, key and value (nil or not), \<^verbatim>\<open>DomainPut\<close> with a non-nil
  second key part panics with the value 1 and leaves the state as it was: the check
  comes before the nil-value check and before any write. A call that succeeds has a
  nil second key part.
\<close>

theorem DomainPut_k2_panics:
  "DomainPut E h sd domain k1 (Some k2) val prevVal step = (Panic (PanicValue 1), sd)
   \<and> (fst (DomainPut E h sd domain k1 k2' val prevVal step) = Ok () \<longrightarrow> k2' = None)"
  by (simp add: DomainPut_def)

theorem DomainPut_k2_panics_witness:
  "DomainPut mem_ext mem_heap mem_sd AccountsDomain (Some [1]) (Some [2]) (Some [3]) None 0
     = (Panic (PanicValue 1), mem_sd)
   \<and> fst (DomainPut mem_ext mem_heap mem_sd AccountsDomain (Some [1, 2]) None (Some [3]) None 0) = Ok ()
   \<and> (None :: bytes) = None"
  using DomainPut_k2_panics [of mem_ext mem_heap mem_sd AccountsDomain "Some [1, 2]" "[2]" "Some [3]" None 0 None]
  by (simp add: DomainPut_def upd_defs go_defs mem_defs Let_def)




section \<open>Claims about \<^verbatim>\<open>Flush\<close> and \<^verbatim>\<open>Unwind\<close>\<close>

lemma and_then_cache:
  assumes "read_cache (fst (snd r)) = c"
    and "\<And>st. read_cache (fst st) = c \<Longrightarrow> read_cache (fst (snd (f st))) = c"
  shows "read_cache (fst (snd (and_then r f))) = c"
  using assms by (auto simp: and_then_def split: prod.splits outcome.splits)

lemma writeDiffSets_overlay: "fst (snd (writeDiffSets E tx l st)) = fst st"
  by (induction l arbitrary: st) (auto split: outcome.splits prod.splits option.splits)

lemma ComputeCommitment_cache: "read_cache (snd (ComputeCommitment E h sd b n)) = read_cache sd"
  by (auto simp: ComputeCommitment_def read_cache_def split: prod.splits sum.splits)

lemma flushDomainWriters_cache:
  "read_cache (fst (snd (flushDomainWriters E tx ds st))) = read_cache (fst st)"
  by (induction ds arbitrary: st)
     (auto simp: read_cache_def Let_def split: prod.splits option.splits)

lemma flushIIWriters_cache:
  "read_cache (fst (snd (flushIIWriters E tx ws st))) = read_cache (fst st)"
  by (induction E tx ws st rule: flushIIWriters.induct)
     (auto simp: read_cache_def split: prod.splits option.splits)

lemma pruneOnFlush_overlay: "fst (snd (pruneOnFlush E tx st)) = fst st"
  by (auto simp: pruneOnFlush_def split: prod.splits option.splits)

lemma closeDomainWriters_cache: "read_cache (closeDomainWriters E ds sd) = read_cache sd"
  by (induction ds arbitrary: sd) (auto simp: read_cache_def split: option.splits)

lemma closeIIWriters_cache: "read_cache (closeIIWriters E ws sd) = read_cache sd"
  by (induction E ws sd rule: closeIIWriters.induct) (auto simp: read_cache_def)

lemma Flush_tail_cache:
  "read_cache (fst (snd (case cc of
               (Panic p, sd2) \<Rightarrow> (Panic p, (sd2, h1))
             | (Err err, sd2) \<Rightarrow> (Err err, (sd2, h1))
             | (Ok root, sd2) \<Rightarrow>
                 and_then (flushDomainWriters E tx all_domains (sd2, h1))
                   (\<lambda>st. and_then (flushIIWriters E tx (iiWriters (fst st)) st)
                      (\<lambda>st. and_then (pruneOnFlush E tx st)
                         (\<lambda>st. (Ok (), (closeIIWriters E (iiWriters (fst st))
                                           (closeDomainWriters E all_domains (fst st)),
                                         snd st)))))))) = read_cache (snd cc)"
proof (cases cc)
  case (Pair r sd2)
  show ?thesis
  proof (cases r)
    case (Ok root)
    show ?thesis unfolding Pair Ok
      apply simp
      apply (rule and_then_cache)
       apply (simp add: flushDomainWriters_cache)
      apply (rule and_then_cache)
       apply (simp add: flushIIWriters_cache)
      apply (rule and_then_cache)
       apply (simp add: pruneOnFlush_overlay)
      apply (simp add: closeIIWriters_cache closeDomainWriters_cache)
      done
  qed (simp_all add: Pair)
qed

lemma Flush_cache: "read_cache (fst (snd (Flush E h sd tx))) = read_cache sd"
  unfolding Flush_def
  apply (rule and_then_cache)
   apply (simp add: writeDiffSets_overlay)
  apply (simp only: Flush_tail_cache ComputeCommitment_cache)
  apply (simp add: read_cache_def)
  done

lemma get_read_cache: "read_cache sd' = read_cache sd \<Longrightarrow> get sd' d k = get sd d k"
  by (rule get_cong) (simp_all add: read_cache_def)

text \<open>
  Claim C6. \<^verbatim>\<open>Flush\<close> never modifies the in-memory read cache (the per-domain maps and
  the sorted storage map), whether it returns nil, an error or panics: every domain
  and key is read from the cache after \<^verbatim>\<open>Flush\<close> exactly as before, with the same
  value and step. \<^verbatim>\<open>ClearRam\<close> empties the cache.
\<close>

theorem Flush_keeps_read_cache:
  "read_cache (fst (snd (Flush E h sd tx))) = read_cache sd
   \<and> get (fst (snd (Flush E h sd tx))) d k = get sd d k
   \<and> read_cache (ClearRam E sd resetCommitment) = (\<lambda>d. Map.empty, [])"
  using get_read_cache [OF Flush_cache, of E h sd tx d k]
  by (simp add: Flush_cache) (simp add: ClearRam_def read_cache_def Let_def)

theorem Flush_keeps_read_cache_witness:
  "fst (Flush mem_ext mem_heap
          (snd (DomainPut mem_ext mem_heap mem_sd StorageDomain (Some [1, 2]) None (Some [7]) None 0)) 0) = Ok ()
   \<and> get (fst (snd (Flush mem_ext mem_heap
          (snd (DomainPut mem_ext mem_heap mem_sd StorageDomain (Some [1, 2]) None (Some [7]) None 0)) 0)))
        StorageDomain (Some [1, 2]) = Ok (Some [7], 2, True)
   \<and> get (ClearRam mem_ext
          (snd (DomainPut mem_ext mem_heap mem_sd StorageDomain (Some [1, 2]) None (Some [7]) None 0)) False)
        StorageDomain (Some [1, 2]) = Ok (None, 0, False)"
  using Flush_keeps_read_cache [of mem_ext mem_heap
      "snd (DomainPut mem_ext mem_heap mem_sd StorageDomain (Some [1, 2]) None (Some [7]) None 0)" 0
      StorageDomain "Some [1, 2]" False]
  by (simp add: flush_defs DomainPut_def upd_defs go_defs mem_defs Let_def ClearRam_def)

lemma run_steps_and_then:
  "run_steps (f # fs) st = and_then (f st) (run_steps fs)"
  by (simp add: and_then_def split: prod.splits outcome.splits)

text \<open>
  Claim C2. With a non-zero step size, \<^verbatim>\<open>Unwind\<close> is the run of the five steps of the
  protocol, in order: flush, the store's unwind of the change set back to \<open>txTo\<close>,
  clearing the overlay and resetting the commitment context, setting the position
  to \<open>(blockTo, txTo)\<close>, and a final flush; a step that fails ends the run with its
  error. In particular: when the first flush does not return nil, \<^verbatim>\<open>Unwind\<close> returns
  what that flush returned; when the store's unwind fails, \<^verbatim>\<open>Unwind\<close> returns its error
  with the overlay as the first flush left it (not cleared, position not moved).
\<close>

theorem Unwind_protocol:
  assumes "StepSize E \<noteq> 0"
  shows "Unwind E h sd rwTx blockTo txTo changeset
           = run_steps (unwind_protocol E rwTx blockTo txTo changeset) (sd, h)
         \<and> (fst (Flush E h sd rwTx) \<noteq> Ok () \<longrightarrow>
              Unwind E h sd rwTx blockTo txTo changeset = Flush E h sd rwTx)
         \<and> (Flush E h sd rwTx = (Ok (), (sd1, h1)) \<longrightarrow>
              tx_Unwind E (h1 rwTx) txTo changeset = (Some err, s) \<longrightarrow>
              Unwind E h sd rwTx blockTo txTo changeset = (Err err, (sd1, h1(rwTx := s))))"
proof -
  have clear: "\<And>st. ClearRam E st True
      = st\<lparr>domains := (\<lambda>d. Map.empty), storage := [], estSize := 0,
            sdCtx := ctx_Reset E (ctx_updates_Reset E (sdCtx st))\<rparr>"
    by (simp add: ClearRam_def Let_def)
  have "Unwind E h sd rwTx blockTo txTo changeset
           = run_steps (unwind_protocol E rwTx blockTo txTo changeset) (sd, h)"
    using assms
    apply (simp add: Unwind_def unwind_protocol_def run_steps_and_then step_flush_def del: run_steps.simps)
    apply (rule arg_cong [where f = "and_then (Flush E h sd rwTx)"])
    apply (rule ext)
    apply (simp add: step_store_unwind_def step_clear_def step_position_def and_then_def step_flush_def
        SetTxNum_def SetBlockNum_def clear split: prod.splits option.splits outcome.splits)
    done
  moreover have "fst (Flush E h sd rwTx) \<noteq> Ok () \<longrightarrow>
              Unwind E h sd rwTx blockTo txTo changeset = Flush E h sd rwTx"
    using assms by (cases "Flush E h sd rwTx"; cases "fst (Flush E h sd rwTx)")
      (auto simp: Unwind_def and_then_def)
  moreover have "Flush E h sd rwTx = (Ok (), (sd1, h1)) \<longrightarrow>
              tx_Unwind E (h1 rwTx) txTo changeset = (Some err, s) \<longrightarrow>
              Unwind E h sd rwTx blockTo txTo changeset = (Err err, (sd1, h1(rwTx := s)))"
    using assms by (simp add: Unwind_def and_then_def)
  ultimately show ?thesis by blast
qed

theorem Unwind_protocol_witness:
  "StepSize mem_ext \<noteq> 0
   \<and> Unwind mem_ext mem_heap
        (snd (DomainPut mem_ext mem_heap mem_sd StorageDomain (Some [1, 2]) None (Some [7]) None 0))
        0 1 16 []
      = (Ok (), (mem_sd\<lparr>txNum := 16, blockNum := 1\<rparr>, mem_heap(0 := [(1, [1, 2], Some [7], 0)])))"
proof -
  have s: "StepSize mem_ext \<noteq> 0" by (simp add: mem_defs)
  have "run_steps (unwind_protocol mem_ext 0 1 16 [])
          (snd (DomainPut mem_ext mem_heap mem_sd StorageDomain (Some [1, 2]) None (Some [7]) None 0),
           mem_heap)
        = (Ok (), (mem_sd\<lparr>txNum := 16, blockNum := 1\<rparr>, mem_heap(0 := [(1, [1, 2], Some [7], 0)])))"
    by (simp add: unwind_protocol_def step_flush_def step_store_unwind_def step_clear_def
        step_position_def flush_defs DomainPut_def upd_defs go_defs mem_defs Let_def)
  then show ?thesis
    using s Unwind_protocol [OF s, of mem_heap
        "snd (DomainPut mem_ext mem_heap mem_sd StorageDomain (Some [1, 2]) None (Some [7]) None 0)"
        0 1 16 "[]"]
    by simp
qed

section \<open>Claim about \<^verbatim>\<open>ReadsValid\<close>\<close>

lemma validKeys_iff:
  assumes "i0 + length ks \<le> length vals"
    and "\<And>j d. j < length ks \<Longrightarrow> m (ks ! j) = Some d \<Longrightarrow>
           differs (vals ! (i0 + j)) (data d) = Ok (D (vals ! (i0 + j)) (data d))"
  shows "validKeys m differs vals i0 ks
           = Ok (\<not> (\<exists>j < length ks. \<exists>d. m (ks ! j) = Some d \<and> D (vals ! (i0 + j)) (data d)))"
  using assms
proof (induction ks arbitrary: i0)
  case Nil
  then show ?case by simp
next
  case (Cons k ks)
  have len: "Suc i0 + length ks \<le> length vals" using Cons.prems(1) by simp
  have step: "\<And>j d. j < length ks \<Longrightarrow> m (ks ! j) = Some d \<Longrightarrow>
           differs (vals ! (Suc i0 + j)) (data d) = Ok (D (vals ! (Suc i0 + j)) (data d))"
    using Cons.prems(2) [of "Suc j" for j] by simp
  note IH = Cons.IH [OF len step]
  have split: "\<And>P. (\<exists>j < length (k # ks). P j) \<longleftrightarrow> P 0 \<or> (\<exists>j < length ks. P (Suc j))"
    by (auto simp: less_Suc_eq_0_disj)
  have eq: "(\<exists>j < length (k # ks). \<exists>d. m ((k # ks) ! j) = Some d \<and> D (vals ! (i0 + j)) (data d))
        \<longleftrightarrow> (\<exists>d. m k = Some d \<and> D (vals ! i0) (data d))
             \<or> (\<exists>j < length ks. \<exists>d. m (ks ! j) = Some d \<and> D (vals ! (Suc i0 + j)) (data d))"
    using split [of "\<lambda>j. \<exists>d. m ((k # ks) ! j) = Some d \<and> D (vals ! (i0 + j)) (data d)"]
    by simp
  show ?case
  proof (cases "m k")
    case None
    show ?thesis
      apply (subst eq)
      using None IH apply simp
      done
  next
    case (Some d)
    have here: "differs (vals ! i0) (data d) = Ok (D (vals ! i0) (data d))"
      using Cons.prems(2) [of 0 d] Some by simp
    have "i0 < length vals" using Cons.prems(1) by simp
    then show ?thesis
      apply (subst eq)
      using Some here IH apply simp
      done
  qed
qed

lemma differs_bytes_Ok: "differs_bytes a b = Ok (go_string a \<noteq> go_string b)"
  by (simp add: differs_bytes_def bytes_Equal_def)

lemma differs_size_Ok:
  "8 \<le> go_len a \<Longrightarrow>
     differs_size a b = Ok (case BigEndian_Uint64 (go_string a) of
                              Ok n \<Rightarrow> n \<noteq> of_nat (go_len b) | Err e \<Rightarrow> False | Panic p \<Rightarrow> False)"
  by (simp add: differs_size_def BigEndian_Uint64_def go_len_def)

lemma validTable_iff:
  assumes "well_formed E (t, Some l)"
  shows "validTable E sd t (Some l)
           = Ok (\<not> (\<exists>i < length (Keys l). stale E sd t (Keys l ! i) (Vals l ! i)))"
proof -
  have len: "0 + length (Keys l) \<le> length (Vals l)"
    using assms by (simp add: well_formed_def)
  have rec: "recognised E t" using assms by (simp add: well_formed_def)
  show ?thesis
  proof (cases "by_size E t")
    case False
    have v: "validKeys m differs_bytes (Vals l) 0 (Keys l)
        = Ok (\<not> (\<exists>j < length (Keys l). \<exists>d. m (Keys l ! j) = Some d
                   \<and> go_string (Vals l ! (0 + j)) \<noteq> go_string (data d)))" for m
      by (rule validKeys_iff [OF len]) (simp add: differs_bytes_Ok)
    show ?thesis
      using False rec
      by (auto simp: validTable_def v stale_def overlay_value_def value_differs_def recognised_def
          by_size_def split: option.splits)
  next
    case True
    have sz: "\<And>j. j < length (Keys l) \<Longrightarrow> 8 \<le> go_len (Vals l ! j)"
      using assms True len by (simp add: well_formed_def)
    have v: "validKeys m differs_size (Vals l) 0 (Keys l)
        = Ok (\<not> (\<exists>j < length (Keys l). \<exists>d. m (Keys l ! j) = Some d
                   \<and> (case BigEndian_Uint64 (go_string (Vals l ! (0 + j))) of
                              Ok n \<Rightarrow> n \<noteq> of_nat (go_len (data d)) | Err e \<Rightarrow> False | Panic p \<Rightarrow> False)))" for m
      by (rule validKeys_iff [OF len]) (simp add: differs_size_Ok sz)
    show ?thesis
      using True
      by (auto simp: validTable_def v stale_def overlay_value_def value_differs_def
          by_size_def split: option.splits)
  qed
qed

text \<open>
  Claim C3, as amended. For a well-formed read-set (tables Accounts, Code, Storage
  or \<^verbatim>\<open>CodeSize\<close> only), \<^verbatim>\<open>ReadsValid\<close> returns false if and only if at least one key of
  the read-set is present in the overlay with a current value that differs from the
  recorded one (for \<^verbatim>\<open>CodeSize\<close>: the recorded size is not the length of the cached
  code); a key absent from the overlay is never stale; every listed table is
  checked, in whatever order the map is ranged over. A table that is not recognised
  makes \<^verbatim>\<open>ReadsValid\<close> panic with the table's name.
\<close>

theorem ReadsValid_iff_stale:
  assumes "\<forall>entry \<in> set readLists. well_formed E entry"
  shows "ReadsValid E sd readLists = Ok (\<not> some_stale E sd readLists)
         \<and> (\<not> recognised E t \<longrightarrow> ReadsValid E sd ((t, l) # rest) = Panic (PanicTable t))"
proof -
  have "ReadsValid E sd readLists = Ok (\<not> some_stale E sd readLists)"
    using assms
  proof (induction readLists)
    case Nil
    then show ?case by (simp add: some_stale_def)
  next
    case (Cons entry readLists)
    obtain t' l' where e: "entry = (t', Some l')"
      using Cons.prems by (cases entry; cases "snd entry") (auto simp: well_formed_def)
    have wf: "well_formed E (t', Some l')" using Cons.prems e by simp
    have IH: "ReadsValid E sd readLists = Ok (\<not> some_stale E sd readLists)"
      using Cons by simp
    have split: "some_stale E sd (entry # readLists)
        \<longleftrightarrow> (\<exists>i < length (Keys l'). stale E sd t' (Keys l' ! i) (Vals l' ! i))
             \<or> some_stale E sd readLists"
      by (auto simp: some_stale_def e)
    show ?case
      using validTable_iff [OF wf, of sd] IH split unfolding e by auto
  qed
  moreover have "\<not> recognised E t \<longrightarrow> ReadsValid E sd ((t, l) # rest) = Panic (PanicTable t)"
    by (simp add: validTable_def recognised_def)
  ultimately show ?thesis by simp
qed

theorem ReadsValid_iff_stale_witness:
  "well_formed mem_ext (''accounts'', Some \<lparr>Keys = [[10]], Vals = [Some [100]]\<rparr>)
   \<and> ReadsValid mem_ext mem_sd [(''accounts'', Some \<lparr>Keys = [[10]], Vals = [Some [100]]\<rparr>)] = Ok True
   \<and> ReadsValid mem_ext
        (snd (DomainPut mem_ext mem_heap mem_sd AccountsDomain (Some [10]) None (Some [100]) None 0))
        [(''accounts'', Some \<lparr>Keys = [[10]], Vals = [Some [100]]\<rparr>)] = Ok True
   \<and> ReadsValid mem_ext
        (snd (DomainPut mem_ext mem_heap mem_sd AccountsDomain (Some [10]) None (Some [200]) None 0))
        [(''accounts'', Some \<lparr>Keys = [[10]], Vals = [Some [100]]\<rparr>)] = Ok False
   \<and> some_stale mem_ext
        (snd (DomainPut mem_ext mem_heap mem_sd AccountsDomain (Some [10]) None (Some [200]) None 0))
        [(''accounts'', Some \<lparr>Keys = [[10]], Vals = [Some [100]]\<rparr>)]"
proof -
  have wf: "\<forall>entry \<in> set [(''accounts'', Some \<lparr>Keys = [[10]], Vals = [Some [100]]\<rparr>)].
              well_formed mem_ext entry"
    by (simp add: reads_defs mem_defs)
  have st: "some_stale mem_ext
        (snd (DomainPut mem_ext mem_heap mem_sd AccountsDomain (Some [10]) None (Some [200]) None 0))
        [(''accounts'', Some \<lparr>Keys = [[10]], Vals = [Some [100]]\<rparr>)]"
    by (simp add: reads_defs DomainPut_def upd_defs go_defs mem_defs Let_def)
  have a: "ReadsValid mem_ext mem_sd [(''accounts'', Some \<lparr>Keys = [[10]], Vals = [Some [100]]\<rparr>)] = Ok True"
    by (simp add: reads_defs mem_defs)
  have b: "ReadsValid mem_ext
        (snd (DomainPut mem_ext mem_heap mem_sd AccountsDomain (Some [10]) None (Some [100]) None 0))
        [(''accounts'', Some \<lparr>Keys = [[10]], Vals = [Some [100]]\<rparr>)] = Ok True"
    by (simp add: reads_defs DomainPut_def upd_defs go_defs mem_defs Let_def)
  show ?thesis
    using wf st a b ReadsValid_iff_stale [OF wf, of
        "snd (DomainPut mem_ext mem_heap mem_sd AccountsDomain (Some [10]) None (Some [200]) None 0)"]
    by simp
qed


text \<open>
  Claim C3 as stated fails for a domain other than Accounts, Code and Storage: the
  overlay holds the value 200 under a Commitment key, the read-set recorded 100 for
  it under the table of that domain, and \<^verbatim>\<open>ReadsValid\<close> does not return false: it
  panics.
\<close>

theorem ReadsValid_unknown_table_counterexample:
  "domains (snd (DomainPut mem_ext mem_heap mem_sd CommitmentDomain (Some [10]) None (Some [200]) (Some [100]) 0))
      CommitmentDomain [10] = Some \<lparr>data = Some [200], prevStep = 2\<rparr>
   \<and> ReadsValid mem_ext
        (snd (DomainPut mem_ext mem_heap mem_sd CommitmentDomain (Some [10]) None (Some [200]) (Some [100]) 0))
        [(''commitment'', Some \<lparr>Keys = [[10]], Vals = [Some [100]]\<rparr>)]
      = Panic (PanicTable ''commitment'')"
  by (simp add: reads_defs DomainPut_def upd_defs go_defs mem_defs Let_def)


section \<open>Claims about the verkle tree writer\<close>

lemma le_bytes_map: "le_bytes k n = map (\<lambda>i. of_nat (n div 256 ^ i mod 256)) [0..<k]"
proof (induction k arbitrary: n)
  case 0
  then show ?case by simp
next
  case (Suc k)
  have "map (\<lambda>i. (of_nat (n div 256 ^ i mod 256) :: byte)) [0..<Suc k]
        = of_nat (n mod 256) # map (\<lambda>i. of_nat (n div 256 ^ Suc i mod 256)) [0..<k]"
    by (simp add: upt_conv_Cons map_Suc_upt [symmetric] del: upt_Suc)
  also have "map (\<lambda>i. (of_nat (n div 256 ^ Suc i mod 256) :: byte)) [0..<k]
        = map (\<lambda>i. of_nat (n div 256 div 256 ^ i mod 256)) [0..<k]"
    by (simp add: div_mult2_eq)
  finally show ?case using Suc.IH [of "n div 256"] by simp
qed

lemma ucast_drop_bit_byte:
  "(ucast (drop_bit (8 * i) (v :: u64)) :: byte) = of_nat (unat v div 256 ^ i mod 256)"
proof -
  have p: "(2::nat) ^ (8 * i) = 256 ^ i"
    by (simp add: power_mult)
  have d: "unat (drop_bit (8 * i) v) = unat v div 256 ^ i"
    by (subst unat_drop_bit_eq) (simp only: drop_bit_eq_div p)
  have "unat (ucast (drop_bit (8 * i) v) :: byte) = unat v div 256 ^ i mod 256"
    by (simp only: unsigned_ucast_eq d take_bit_eq_mod) simp
  moreover have "unat (of_nat (unat v div 256 ^ i mod 256) :: byte) = unat v div 256 ^ i mod 256"
    by (simp add: unat_of_nat)
  ultimately show ?thesis
    by (simp add: word_unat_eq_iff)
qed

lemma PutUint64_le64_leaf:
  "LittleEndian_PutUint64 (replicate 32 0) v = Ok (le64_leaf v)"
  by (simp add: LittleEndian_PutUint64_def le64_leaf_def le_bytes_map ucast_drop_bit_byte
      del: le_bytes.simps)

lemma int256_loop_rev:
  assumes "n = i + length bs" and "length bs \<le> length buffer"
  shows "int256_loop n i bs buffer = Ok (rev bs @ drop (length bs) buffer)"
  using assms
proof (induction bs arbitrary: i buffer)
  case Nil
  then show ?case by simp
next
  case (Cons b bs)
  have idx: "n - i - 1 = length bs" using Cons.prems(1) by simp
  have lt: "length bs < length buffer" using Cons.prems(2) by simp
  have "int256_loop n (Suc i) bs (buffer[length bs := b])
          = Ok (rev bs @ drop (length bs) (buffer[length bs := b]))"
    using Cons.prems by (intro Cons.IH) simp_all
  moreover have "drop (length bs) (buffer[length bs := b]) = b # drop (Suc (length bs)) buffer"
    using lt by (simp add: drop_update_cancel Cons_nth_drop_Suc [symmetric] upd_conv_take_nth_drop)
  ultimately show ?case using lt idx by simp
qed

lemma length_big_Bytes: "n < 256 ^ k \<Longrightarrow> length (big_Bytes n) \<le> k"
proof (induction k arbitrary: n)
  case 0
  then show ?case by (simp add: big_Bytes.simps)
next
  case (Suc k)
  show ?case
  proof (cases "n = 0")
    case True
    then show ?thesis by (simp add: big_Bytes.simps)
  next
    case False
    have "n div 256 < 256 ^ k" using Suc.prems by (simp add: less_mult_imp_div_less)
    then have "length (big_Bytes (n div 256)) \<le> k" by (rule Suc.IH)
    then show ?thesis using False by (subst big_Bytes.simps) simp
  qed
qed

lemma length_big_Bytes_256: "length (big_Bytes (unat (b :: 256 word))) \<le> 32"
proof -
  have "unat b < 2 ^ 256" using unsigned_less [of b] by simp
  also have "(2::nat) ^ 256 = 256 ^ 32" by simp
  finally show ?thesis by (rule length_big_Bytes)
qed

lemma int256ToVerkleFormat_balance_leaf:
  "int256ToVerkleFormat b (replicate 32 0) = Ok (balance_leaf b)"
  using length_big_Bytes_256 [of b]
  by (simp add: int256ToVerkleFormat_def balance_leaf_def Let_def int256_loop_rev)

lemma sub_key_update:
  "31 \<le> length versionKey \<Longrightarrow>
     (take 31 versionKey @ [0 :: byte])[31 := c] = sub_key versionKey c"
  by (simp add: sub_key_def list_update_append)

lemma le_nat_append_zeros: "le_nat (xs @ replicate k 0) = le_nat xs"
  by (induction xs) (simp_all, induction k, simp_all)

lemma le_nat_rev_big_Bytes: "le_nat (rev (big_Bytes n)) = n"
proof (induction n rule: big_Bytes.induct)
  case (1 n)
  show ?case
  proof (cases "n = 0")
    case True
    then show ?thesis by (simp add: big_Bytes.simps)
  next
    case False
    then have "le_nat (rev (big_Bytes n)) = unat (of_nat (n mod 256) :: byte) + 256 * le_nat (rev (big_Bytes (n div 256)))"
      by (subst big_Bytes.simps) simp
    also have "\<dots> = n mod 256 + 256 * (n div 256)"
      using 1 False by (simp add: unat_of_nat)
    finally show ?thesis by simp
  qed
qed

lemma le_nat_le_bytes: "le_nat (le_bytes k n) = n mod 256 ^ k"
proof (induction k arbitrary: n)
  case 0
  then show ?case by simp
next
  case (Suc k)
  have "le_nat (le_bytes (Suc k) n) = n mod 256 + 256 * (n div 256 mod 256 ^ k)"
    by (simp add: Suc.IH unat_of_nat)
  also have "\<dots> = n mod 256 ^ Suc k"
    by (simp add: mod_mult2_eq)
  finally show ?case .
qed

lemma le_nat_le64_leaf: "le_nat (le64_leaf v) = unat v"
proof -
  have "unat v < 2 ^ 64" using unsigned_less [of v] by simp
  also have "(2::nat) ^ 64 = 256 ^ 8" by simp
  finally show ?thesis
    by (simp add: le64_leaf_def le_nat_append_zeros le_nat_le_bytes del: le_bytes.simps)
qed

lemma le_nat_balance_leaf: "le_nat (balance_leaf b) = unat b"
  by (simp add: balance_leaf_def le_nat_append_zeros le_nat_rev_big_Bytes)

lemma length_le_bytes: "length (le_bytes k n) = k"
  by (induction k arbitrary: n) simp_all

lemma and_then_return: "and_then r (\<lambda>v. (Ok (), v)) = r"
  by (cases r; cases "fst r") (auto simp: and_then_def)

text \<open>
  Claim C8. For a version key of at least 31 bytes, \<^verbatim>\<open>UpdateAccount\<close> hands to the
  collector, in this order and stopping at the first error: the version key itself
  with the value \<open>[0]\<close>, the nonce leaf, the balance leaf and, only for a contract,
  the code-hash leaf and the code-size leaf; each of the four sub-keys is the first
  31 bytes of the version key followed by the leaf's constant. Nonce and code size
  are 8 little-endian bytes in a 32-byte buffer, the balance is its big-endian
  byte string reversed in a 32-byte buffer; both read back, as little-endian
  numbers, as the value they encode.
\<close>

theorem UpdateAccount_stages_leaves:
  assumes "31 \<le> length versionKey"
  shows "UpdateAccount V v versionKey codeSize isContract acc
           = stage V v (account_leaves V versionKey codeSize isContract acc)
         \<and> length (le64_leaf n) = 32 \<and> le_nat (le64_leaf n) = unat n
         \<and> length (balance_leaf b) = 32 \<and> le_nat (balance_leaf b) = unat b
         \<and> length (sub_key versionKey c) = 32"
proof -
  have "UpdateAccount V v versionKey codeSize isContract acc
           = stage V v (account_leaves V versionKey codeSize isContract acc)"
    using assms
    by (cases isContract)
      (simp_all add: UpdateAccount_def Let_def int256ToVerkleFormat_balance_leaf PutUint64_le64_leaf
        sub_key_update account_leaves_def and_then_return)
  moreover have "length (le64_leaf n) = 32"
    by (simp add: le64_leaf_def length_le_bytes del: le_bytes.simps)
  moreover have "length (balance_leaf b) = 32"
    using length_big_Bytes_256 [of b] by (simp add: balance_leaf_def)
  moreover have "length (sub_key versionKey c) = 32"
    using assms by (simp add: sub_key_def)
  ultimately show ?thesis
    by (simp add: le_nat_le64_leaf le_nat_balance_leaf)
qed


theorem UpdateAccount_stages_leaves_witness:
  "31 \<le> length (replicate 32 (7 :: byte))
   \<and> UpdateAccount mem_vext \<lparr>db = [], collector = []\<rparr> (replicate 32 7) 3 True
        \<lparr>Nonce = 5, Balance = 258, CodeHash = replicate 32 9\<rparr>
      = (Ok (), \<lparr>db = [], collector =
           [(replicate 32 7, [0]),
            (replicate 31 7 @ [2], 5 # replicate 31 0),
            (replicate 31 7 @ [1], [2, 1] @ replicate 30 0),
            (replicate 31 7 @ [3], replicate 32 9),
            (replicate 31 7 @ [4], 3 # replicate 31 0)]\<rparr>)"
proof -
  have l: "31 \<le> length (replicate 32 (7 :: byte))" by simp
  have "stage mem_vext \<lparr>db = [], collector = []\<rparr>
          (account_leaves mem_vext (replicate 32 7) 3 True
             \<lparr>Nonce = 5, Balance = 258, CodeHash = replicate 32 9\<rparr>)
      = (Ok (), \<lparr>db = [], collector =
           [(replicate 32 7, [0]),
            (replicate 31 7 @ [2], 5 # replicate 31 0),
            (replicate 31 7 @ [1], [2, 1] @ replicate 30 0),
            (replicate 31 7 @ [3], replicate 32 9),
            (replicate 31 7 @ [4], 3 # replicate 31 0)]\<rparr>)"
    by code_simp
  then show ?thesis
    using l UpdateAccount_stages_leaves [OF l, of mem_vext "\<lparr>db = [], collector = []\<rparr>" 3 True
        "\<lparr>Nonce = 5, Balance = 258, CodeHash = replicate 32 9\<rparr>"]
    by simp
qed

lemma writeNodes_no_clear [simp]: "writeNodes (V\<lparr>ClearTable := f\<rparr>) d ns = writeNodes V d ns"
  by (induction ns arbitrary: d) (auto split: prod.splits option.splits)

lemma flushVerkleNode_no_clear [simp]:
  "flushVerkleNode (V\<lparr>ClearTable := f\<rparr>) d n = flushVerkleNode V d n"
  by (simp add: flushVerkleNode_def)

lemma incremental_load_no_clear [simp]:
  "incremental_load (V\<lparr>ClearTable := f\<rparr>) entries st = incremental_load V entries st"
  by (induction V entries st rule: incremental_load.induct)
     (simp_all split: prod.splits option.splits)

lemma incremental_no_clear:
  "CommitVerkleTreeIncremental (V\<lparr>ClearTable := f\<rparr>) v n = CommitVerkleTreeIncremental V v n"
  by (simp add: CommitVerkleTreeIncremental_def
      cong: sum.case_cong prod.case_cong outcome.case_cong)

lemma scratch_rebuild_db:
  "scratch_rebuild V (v\<lparr>db := x\<rparr>) d = scratch_rebuild V v d"
  by (simp add: scratch_rebuild_def split: sum.splits prod.splits outcome.splits option.splits)

text \<open>
  Claim C10. When the root is not the zero hash, \<^verbatim>\<open>CommitVerkleTree\<close> reads the root
  node and takes the incremental path (or returns the read error), and never clears
  the table: whatever \<^verbatim>\<open>ClearTable\<close> would do makes no difference. When the root is
  the zero hash it is \<^verbatim>\<open>CommitVerkleTreeFromScratch\<close>, which first clears the table of
  persisted trie nodes, returns at once if that fails, and otherwise rebuilds on the
  cleared transaction: two transactions that \<^verbatim>\<open>ClearTable\<close> maps to the same result
  give the same commit, so nothing persisted before survives into the rebuild.
\<close>

theorem CommitVerkleTree_paths:
  "(root \<noteq> zero_hash \<longrightarrow>
      CommitVerkleTree V v root
        = (case ReadVerkleNode V (db v) root of
             Inl err \<Rightarrow> (Ok (zero_hash, Some err), v)
           | Inr rootNode \<Rightarrow> CommitVerkleTreeIncremental V v rootNode)
      \<and> CommitVerkleTree (V\<lparr>ClearTable := f\<rparr>) v root = CommitVerkleTree V v root)
   \<and> CommitVerkleTree V v zero_hash = CommitVerkleTreeFromScratch V v
   \<and> CommitVerkleTreeFromScratch V v
        = (case ClearTable V (db v) (VerkleTrie V) of
             (Some err, d) \<Rightarrow> (Ok (zero_hash, Some err), v\<lparr>db := d\<rparr>)
           | (None, d) \<Rightarrow> scratch_rebuild V v d)
   \<and> (ClearTable V (db v) (VerkleTrie V) = ClearTable V x (VerkleTrie V) \<longrightarrow>
        CommitVerkleTree V (v\<lparr>db := x\<rparr>) zero_hash = CommitVerkleTree V v zero_hash)"
  by (auto simp: CommitVerkleTree_def CommitVerkleTreeFromScratch_def incremental_no_clear
      scratch_rebuild_db split: sum.splits prod.splits option.splits)


theorem CommitVerkleTree_paths_witness:
  "replicate 31 0 @ [1] \<noteq> zero_hash
   \<and> ClearTable mem_vext (db mem_writer) (VerkleTrie mem_vext)
       = ClearTable mem_vext [] (VerkleTrie mem_vext)
   \<and> CommitVerkleTree mem_vext mem_writer (replicate 31 0 @ [1])
       = (Ok (replicate 31 0 @ [2], None),
          \<lparr>db = [(replicate 31 0 @ [2], replicate 31 0 @ [1, 5]), (replicate 31 0 @ [1], [9])],
           collector = [([5], [6])]\<rparr>)
   \<and> CommitVerkleTree mem_vext mem_writer zero_hash
       = (Ok (replicate 31 0 @ [1], None),
          \<lparr>db = [], collector = [([5], [6]), (replicate 31 0 @ [1], [5])]\<rparr>)"
proof -
  have a: "replicate 31 0 @ [1] \<noteq> zero_hash"
    by code_simp
  have b: "ClearTable mem_vext (db mem_writer) (VerkleTrie mem_vext)
             = ClearTable mem_vext [] (VerkleTrie mem_vext)"
    by (simp add: mem_vext_def)
  have c: "CommitVerkleTree mem_vext mem_writer (replicate 31 0 @ [1])
       = (Ok (replicate 31 0 @ [2], None),
          \<lparr>db = [(replicate 31 0 @ [2], replicate 31 0 @ [1, 5]), (replicate 31 0 @ [1], [9])],
           collector = [([5], [6])]\<rparr>)"
    using a
    by (simp add: CommitVerkleTree_def CommitVerkleTreeIncremental_def flushVerkleNode_def
        insertionBeforeFlushing_def mem_vext_def mem_writer_def mem_commitment_def)
  have d: "CommitVerkleTreeFromScratch mem_vext mem_writer
       = (Ok (replicate 31 0 @ [1], None),
          \<lparr>db = [], collector = [([5], [6]), (replicate 31 0 @ [1], [5])]\<rparr>)"
    by (simp add: CommitVerkleTreeFromScratch_def scratch_rebuild_def collectVerkleNode_def
        mem_vext_def mem_writer_def mem_commitment_def zero_hash_def)
  show ?thesis
    using a b c d CommitVerkleTree_paths [of "replicate 31 0 @ [1]" mem_vext mem_writer
        "ClearTable mem_vext" "[]"]
    by simp
qed

end
